theory Spec2Isabelle
  imports Complex_Main
begin

section \<open>Commission endpoint: \<open>src/app/api/phorest/commissions/route.ts\<close>\<close>

text \<open>
  The handler \<open>POST\<close> validates a date range, consults a cache table, calls the
  salon-management API and stores the computed result. Strings are lists of
  single-byte code units; amounts of money are exact rationals (the JavaScript
  source uses IEEE doubles); instants are integer milliseconds.
\<close>

subsection \<open>JavaScript primitives used by the handler\<close>

text \<open>\<open>a < b\<close> on two JavaScript strings: lexicographic on code units.\<close>

fun js_str_lt :: "string \<Rightarrow> string \<Rightarrow> bool" where
  "js_str_lt [] [] = False"
| "js_str_lt [] (y # ys) = True"
| "js_str_lt (x # xs) [] = False"
| "js_str_lt (x # xs) (y # ys) =
     (if (of_char x :: nat) < of_char y then True
      else if (of_char y :: nat) < of_char x then False
      else js_str_lt xs ys)"

definition js_str_gt :: "string \<Rightarrow> string \<Rightarrow> bool" where
  "js_str_gt a b = js_str_lt b a"

definition js_str_le :: "string \<Rightarrow> string \<Rightarrow> bool" where
  "js_str_le a b = (\<not> js_str_lt b a)"

text \<open>\<open>\d\<close> in a JavaScript regular expression without the unicode flag: \<open>0\<close> to \<open>9\<close>.\<close>

definition is_digit :: "char \<Rightarrow> bool" where
  "is_digit c = (48 \<le> (of_char c :: nat) \<and> (of_char c :: nat) \<le> 57)"

text \<open>\<open>/^\d{4}-\d{2}-\d{2}$/.test(s)\<close>; without the \<open>m\<close> flag \<open>$\<close> matches at the end only.\<close>

definition dateRegex_test :: "string \<Rightarrow> bool" where
  "dateRegex_test s =
     (length s = 10 \<and>
      list_all is_digit (take 4 s) \<and> s ! 4 = CHR ''-'' \<and>
      list_all is_digit (take 2 (drop 5 s)) \<and> s ! 7 = CHR ''-'' \<and>
      list_all is_digit (drop 8 s))"

text \<open>Truthiness of an optional string property: \<open>undefined\<close>, \<open>null\<close> and \<open>""\<close> are falsy.\<close>

definition truthy :: "string option \<Rightarrow> bool" where
  "truthy v = (case v of None \<Rightarrow> False | Some s \<Rightarrow> s \<noteq> [])"

subsection \<open>The values of a JSON body\<close>

text \<open>
  What \<open>JSON.parse\<close> yields. A number is a double, kept as its sign and its magnitude: zero,
  infinity (a literal such as \<open>1e999\<close>), or the decimal digits \<open>s\<close> and the exponent \<open>n\<close>
  from which \<open>Number::toString\<close> prints it, the value being \<open>s \<times> 10 ^ (n - k)\<close> for \<open>k\<close> the
  number of digits of \<open>s\<close>. An object is the list of its members in the order of the text.
\<close>

datatype JsMagnitude = MagZero | MagInfinity | MagFinite nat int

datatype json =
    JNull
  | JBool bool
  | JNum bool JsMagnitude
  | JStr string
  | JArr "json list"
  | JObj "(string \<times> json) list"

definition digit_char :: "nat \<Rightarrow> char" where
  "digit_char d = char_of (48 + d)"

text \<open>The decimal digits of a natural number.\<close>

function decimal :: "nat \<Rightarrow> string" where
  "decimal n = (if n < 10 then [digit_char n] else decimal (n div 10) @ [digit_char (n mod 10)])"
  by pat_completeness auto
termination
  by (relation "measure id") auto

declare decimal.simps [simp del]

definition is_zero :: "JsMagnitude \<Rightarrow> bool" where
  "is_zero m = (case m of MagZero \<Rightarrow> True | MagInfinity \<Rightarrow> False | MagFinite s n \<Rightarrow> s = 0)"

text \<open>
  \<open>Number::toString\<close> of a positive number (ECMAScript, radix 10): plain digits up to
  \<open>10 ^ 21\<close>, a decimal point down to \<open>10 ^ (- 6)\<close>, the exponential form elsewhere.
\<close>

definition magnitude_to_string :: "JsMagnitude \<Rightarrow> string" where
  "magnitude_to_string m =
     (case m of
        MagZero \<Rightarrow> ''0''
      | MagInfinity \<Rightarrow> ''Infinity''
      | MagFinite s n \<Rightarrow>
         (let ds = decimal s; k = int (length ds) in
          if k \<le> n \<and> n \<le> 21 then ds @ replicate (nat (n - k)) CHR ''0''
          else if 0 < n \<and> n \<le> 21 then take (nat n) ds @ ''.'' @ drop (nat n) ds
          else if - 6 < n \<and> n \<le> 0 then ''0.'' @ replicate (nat (- n)) CHR ''0'' @ ds
          else
            (let e = n - 1;
                 sign = (if e < 0 then ''-'' else ''+'');
                 es = decimal (nat \<bar>e\<bar>)
             in if k = 1 then ds @ ''e'' @ sign @ es
                else take 1 ds @ ''.'' @ drop 1 ds @ ''e'' @ sign @ es)))"

definition number_to_string :: "bool \<Rightarrow> JsMagnitude \<Rightarrow> string" where
  "number_to_string negative m =
     (if is_zero m then ''0''
      else if negative then ''-'' @ magnitude_to_string m
      else magnitude_to_string m)"

text \<open>How many hyphens a string holds: two in a date.\<close>

definition hyphens :: "string \<Rightarrow> nat" where
  "hyphens s = length (filter (\<lambda>c. c = CHR ''-'') s)"

text \<open>\<open>Array.prototype.join\<close> with the separator \<open>,\<close>.\<close>

fun join_comma :: "string list \<Rightarrow> string" where
  "join_comma [] = []"
| "join_comma [x] = x"
| "join_comma (x # y # ys) = x @ '','' @ join_comma (y # ys)"

text \<open>
  \<open>String(v)\<close>, which is what \<open>RegExp.prototype.test\<close> and a template literal make of a
  value: an array is the join of its elements, \<open>null\<close> elements giving the empty string.
\<close>

fun js_to_string :: "json \<Rightarrow> string" where
  "js_to_string JNull = ''null''"
| "js_to_string (JBool b) = (if b then ''true'' else ''false'')"
| "js_to_string (JNum negative m) = number_to_string negative m"
| "js_to_string (JStr s) = s"
| "js_to_string (JArr xs) = join_comma (map (\<lambda>x. if x = JNull then [] else js_to_string x) xs)"
| "js_to_string (JObj kvs) = ''[object Object]''"

text \<open>\<open>!!v\<close> for a property of the body; an absent property is \<open>undefined\<close>.\<close>

definition js_truthy :: "json option \<Rightarrow> bool" where
  "js_truthy v =
     (case v of
        None \<Rightarrow> False
      | Some JNull \<Rightarrow> False
      | Some (JBool b) \<Rightarrow> b
      | Some (JNum negative m) \<Rightarrow> \<not> is_zero m
      | Some (JStr s) \<Rightarrow> s \<noteq> []
      | Some (JArr xs) \<Rightarrow> True
      | Some (JObj kvs) \<Rightarrow> True)"

subsection \<open>Types of \<open>src/types/phorest.ts\<close>\<close>

record PhorestBranch =
  b_branchId :: string
  b_name :: string

record PhorestStaff =
  s_staffId :: string
  s_branchId :: string
  s_firstName :: string
  s_lastName :: string
  s_archived :: bool

datatype ActivationState = RESERVED | ACTIVE | CANCELED

record PhorestAppointment =
  a_appointmentId :: string
  a_branchId :: string
  a_clientId :: string
  a_staffId :: string
  a_serviceId :: string
  a_serviceName :: "string option"
  a_appointmentDate :: string
  a_price :: "rat option"
  a_activationState :: ActivationState
  a_deleted :: bool

record PhorestClient =
  c_clientId :: string
  c_firstName :: string
  c_lastName :: string
  c_firstVisit :: "string option"

record ServiceCommission =
  sc_appointmentId :: string
  sc_serviceName :: string
  sc_appointmentDate :: string
  sc_price :: rat
  sc_commission :: rat

record ClientCommission =
  cc_clientId :: string
  cc_clientName :: string
  cc_firstVisitDate :: string
  cc_services :: "ServiceCommission list"
  cc_clientTotal :: rat

record StylistCommission =
  st_staffId :: string
  st_staffName :: string
  st_clients :: "ClientCommission list"
  st_stylistTotal :: rat

record BranchCommission =
  bc_branchId :: string
  bc_branchName :: string
  bc_stylists :: "StylistCommission list"
  bc_branchTotal :: rat

record CommissionResult =
  branches :: "BranchCommission list"
  totalCommission :: rat
  totalNewClients :: nat
  fetchedAt :: string

text \<open>One element of \<open>branchDataList\<close>: \<open>{ branch, staff, appointments }\<close>.\<close>

record BranchData =
  bd_branch :: PhorestBranch
  bd_staff :: "PhorestStaff list"
  bd_appointments :: "PhorestAppointment list"

subsection \<open>The request, the environment and the observable effects\<close>

text \<open>
  The three properties that line 16 destructures from the body, each a JSON value or
  absent (\<open>undefined\<close>).
\<close>

record CommissionRequest =
  startDate :: "json option"
  endDate :: "json option"
  forceRefresh :: "json option"

text \<open>
  \<open>await request.json()\<close> throws for a body that is not JSON (an empty body too), and the
  destructuring throws a \<open>TypeError\<close> for the body \<open>null\<close>; both are caught at line 109.
  Of any other value the three properties are read: those of an object, of whose
  repeated members \<open>JSON.parse\<close> keeps the last, and \<open>undefined\<close> of a number, a string, a
  boolean or an array.
\<close>

datatype RawBody = NotJson string | ParsedJson json

datatype RequestBody = BodyThrows string | BodyObject CommissionRequest

definition obj_get :: "(string \<times> json) list \<Rightarrow> string \<Rightarrow> json option" where
  "obj_get members key = map_of (rev members) key"

definition property :: "json \<Rightarrow> string \<Rightarrow> json option" where
  "property j key = (case j of JObj members \<Rightarrow> obj_get members key | _ \<Rightarrow> None)"

text \<open>The message of the \<open>TypeError\<close>, as V8 words it.\<close>

definition null_body_message :: string where
  "null_body_message =
     ''Cannot destructure property 'startDate' of '(intermediate value)' as it is null.''"

definition read_body :: "RawBody \<Rightarrow> RequestBody" where
  "read_body raw =
     (case raw of
        NotJson msg \<Rightarrow> BodyThrows msg
      | ParsedJson j \<Rightarrow>
          (if j = JNull then BodyThrows null_body_message
           else BodyObject \<lparr>startDate = property j ''startDate'',
                            endDate = property j ''endDate'',
                            forceRefresh = property j ''forceRefresh''\<rparr>))"

datatype Response =
    Json200 CommissionResult
  | Json400 string
  | Json500 string

datatype Effect =
    CacheRead string
  | CacheUpsert string
  | ApiFetchBranches
  | ApiFetchStaff string
  | ApiFetchAppointments string json json
  | ApiFetchClientsBatch "string list"

text \<open>A row of table \<open>phorest_commission_cache\<close>; \<open>date_range_key\<close> is \<open>UNIQUE\<close>.\<close>

record CacheRow =
  results :: CommissionResult
  fetched_at :: int
  expires_at :: int

record ServerState =
  cache :: "string \<rightharpoonup> CacheRow"
  effects :: "Effect list"

text \<open>
  The imported modules \<open>@/lib/supabase\<close>, \<open>@/lib/phorestClient\<close> and
  \<open>@/lib/commissionCalculator\<close> are parameters of the handler. A call that
  throws yields \<open>Inl\<close> of the error message. The two dates are passed on as the body
  held them.
\<close>

record Environment =
  isSupabaseConfigured :: bool
  fetchBranches :: "string + PhorestBranch list"
  fetchStaff :: "string \<Rightarrow> string + PhorestStaff list"
  fetchAppointments :: "string \<Rightarrow> json \<Rightarrow> json \<Rightarrow> string + PhorestAppointment list"
  fetchClientsBatch :: "string list \<Rightarrow> string + PhorestClient list"
  calculate :: "BranchData list \<Rightarrow> PhorestClient list \<Rightarrow> json \<Rightarrow> json
                  \<Rightarrow> string + CommissionResult"

text \<open>
  What the outside does during one request: the two readings of the clock, at the cache
  check and at the cache write, and whether each of the two database calls fails. The
  client of the database does not throw: a failed call resolves to
  \<open>{ data: null, error }\<close>, and the handler reads \<open>data\<close> of the select and nothing of the
  upsert. \<open>expiresAt.setHours(expiresAt.getHours() + CACHE_TTL_HOURS)\<close> is taken to add
  3600000 ms for each hour, as it does when no daylight-saving change falls in between.
\<close>

record RequestRun =
  at_check :: int
  at_cache :: int
  cache_read_fails :: bool
  cache_write_fails :: bool

definition CACHE_TTL_HOURS :: int where
  "CACHE_TTL_HOURS = 1"

definition MS_PER_HOUR :: int where
  "MS_PER_HOUR = 1000 * 60 * 60"

text \<open>The template literal of line 41.\<close>

definition dateRangeKey :: "json \<Rightarrow> json \<Rightarrow> string" where
  "dateRangeKey s e = js_to_string s @ ''_'' @ js_to_string e"

definition log_effect :: "Effect \<Rightarrow> ServerState \<Rightarrow> ServerState" where
  "log_effect x st = st\<lparr>effects := effects st @ [x]\<rparr>"

subsection \<open>The handler\<close>

text \<open>The loop over the branches; both calls of \<open>Promise.all\<close> are issued before either is awaited.\<close>

fun fetchBranchDataList ::
  "Environment \<Rightarrow> json \<Rightarrow> json \<Rightarrow> PhorestBranch list \<Rightarrow> ServerState
     \<Rightarrow> (string + BranchData list) \<times> ServerState" where
  "fetchBranchDataList env s e [] st = (Inr [], st)"
| "fetchBranchDataList env s e (b # bs) st =
     (let st1 = log_effect (ApiFetchAppointments (b_branchId b) s e)
                  (log_effect (ApiFetchStaff (b_branchId b)) st)
      in case fetchStaff env (b_branchId b) of
           Inl err \<Rightarrow> (Inl err, st1)
         | Inr staff \<Rightarrow>
            (case fetchAppointments env (b_branchId b) s e of
               Inl err \<Rightarrow> (Inl err, st1)
             | Inr appts \<Rightarrow>
                (case fetchBranchDataList env s e bs st1 of
                   (Inl err, st2) \<Rightarrow> (Inl err, st2)
                 | (Inr rest, st2) \<Rightarrow>
                     (Inr (\<lparr>bd_branch = b, bd_staff = staff, bd_appointments = appts\<rparr> # rest),
                      st2))))"

text \<open>\<open>allClientIds\<close>: a \<open>Set\<close> keeps the first insertion of each truthy id.\<close>

fun add_client_ids :: "string list \<Rightarrow> string list \<Rightarrow> string list" where
  "add_client_ids acc [] = acc"
| "add_client_ids acc (x # xs) =
     add_client_ids (if x \<noteq> [] \<and> x \<notin> set acc then acc @ [x] else acc) xs"

definition allClientIds :: "BranchData list \<Rightarrow> string list" where
  "allClientIds bdl = add_client_ids [] (map a_clientId (concat (map bd_appointments bdl)))"

text \<open>
  Lines 56 to 107: the computation after validation and cache check. The upsert is issued
  whenever the database is configured; it stores the row unless it fails.
\<close>

definition compute_and_cache ::
  "Environment \<Rightarrow> RequestRun \<Rightarrow> ServerState \<Rightarrow> json \<Rightarrow> json
     \<Rightarrow> Response \<times> ServerState" where
  "compute_and_cache env t st s e =
     (let st1 = log_effect ApiFetchBranches st in
      case fetchBranches env of
        Inl err \<Rightarrow> (Json500 err, st1)
      | Inr bs \<Rightarrow>
         (case fetchBranchDataList env s e bs st1 of
            (Inl err, st2) \<Rightarrow> (Json500 err, st2)
          | (Inr bdl, st2) \<Rightarrow>
             (let st3 = log_effect (ApiFetchClientsBatch (allClientIds bdl)) st2 in
              case fetchClientsBatch env (allClientIds bdl) of
                Inl err \<Rightarrow> (Json500 err, st3)
              | Inr clients \<Rightarrow>
                 (case calculate env bdl clients s e of
                    Inl err \<Rightarrow> (Json500 err, st3)
                  | Inr res \<Rightarrow>
                     (if isSupabaseConfigured env
                      then (Json200 res,
                            (if cache_write_fails t
                             then log_effect (CacheUpsert (dateRangeKey s e)) st3
                             else (log_effect (CacheUpsert (dateRangeKey s e)) st3)
                                    \<lparr>cache := (cache st3)(dateRangeKey s e \<mapsto>
                                       \<lparr>results = res, fetched_at = at_cache t,
                                        expires_at = at_cache t + CACHE_TTL_HOURS * MS_PER_HOUR\<rparr>)\<rparr>))
                      else (Json200 res, st3))))))"

text \<open>
  Lines 41 to 107: what a request does once its dates have passed validation. \<open>cached\<close> is
  \<open>null\<close> when the select fails or finds no row.
\<close>

definition cached_or_computed ::
  "Environment \<Rightarrow> RequestRun \<Rightarrow> ServerState \<Rightarrow> json \<Rightarrow> json \<Rightarrow> bool
     \<Rightarrow> Response \<times> ServerState" where
  "cached_or_computed env t st s e force =
     (if isSupabaseConfigured env \<and> \<not> force
      then
        (let st1 = log_effect (CacheRead (dateRangeKey s e)) st;
             cached = (if cache_read_fails t then None else cache st (dateRangeKey s e))
         in case cached of
              Some row \<Rightarrow>
                (if expires_at row > at_check t then (Json200 (results row), st1)
                 else compute_and_cache env t st1 s e)
            | None \<Rightarrow> compute_and_cache env t st1 s e)
      else compute_and_cache env t st s e)"

text \<open>
  The handler, from the destructured body on. A value that passes the test of line 27 is a
  string or an array (lemma \<open>matching_value_is_string_or_array\<close>), and \<open>>\<close> compares two
  such values as the strings they convert to.
\<close>

definition POST ::
  "Environment \<Rightarrow> RequestRun \<Rightarrow> ServerState \<Rightarrow> RequestBody \<Rightarrow> Response \<times> ServerState" where
  "POST env t st body =
     (case body of
        BodyThrows msg \<Rightarrow> (Json500 msg, st)
      | BodyObject req \<Rightarrow>
         (if \<not> js_truthy (startDate req) \<or> \<not> js_truthy (endDate req)
          then (Json400 ''startDate and endDate are required'', st)
          else
            (let s = the (startDate req); e = the (endDate req) in
             if \<not> dateRegex_test (js_to_string s) \<or> \<not> dateRegex_test (js_to_string e)
             then (Json400 ''Dates must be in YYYY-MM-DD format'', st)
             else if js_str_gt (js_to_string s) (js_to_string e)
             then (Json400 ''startDate must be before endDate'', st)
             else cached_or_computed env t st s e (js_truthy (forceRefresh req)))))"

text \<open>Whether a property of the body holds a value that the test of line 27 accepts.\<close>

definition matches_format :: "json option \<Rightarrow> bool" where
  "matches_format v = (case v of None \<Rightarrow> False | Some j \<Rightarrow> dateRegex_test (js_to_string j))"



subsection \<open>A concrete deployment for evaluation\<close>

definition sample_result :: CommissionResult where
  "sample_result = \<lparr>branches = [], totalCommission = 0, totalNewClients = 0,
                     fetchedAt = ''2026-02-01T10:00:00.000Z''\<rparr>"

definition sample_env :: "bool \<Rightarrow> Environment" where
  "sample_env configured =
     \<lparr>isSupabaseConfigured = configured,
      fetchBranches = Inr [\<lparr>b_branchId = ''B1'', b_name = ''Main''\<rparr>],
      fetchStaff = (\<lambda>_. Inr []),
      fetchAppointments = (\<lambda>_ _ _. Inr []),
      fetchClientsBatch = (\<lambda>_. Inr []),
      calculate = (\<lambda>_ _ _ _. Inr sample_result)\<rparr>"

definition sample_times :: "int \<Rightarrow> RequestRun" where
  "sample_times n = \<lparr>at_check = n, at_cache = n + 2000,
                     cache_read_fails = False, cache_write_fails = False\<rparr>"

definition empty_state :: ServerState where
  "empty_state = \<lparr>cache = Map.empty, effects = []\<rparr>"





section \<open>Time clock: \<open>src/lib/timeClockHooks.ts\<close> and the kiosk component\<close>

subsection \<open>Types of \<open>src/types/timeclock.ts\<close>\<close>

text \<open>Timestamps are the milliseconds that \<open>new Date(iso).getTime()\<close> yields.\<close>

record TCEmployee =
  emp_id :: string
  employee_number :: string
  first_name :: string
  last_name :: string
  is_active :: bool

record TCTimeEntry =
  entry_id :: string
  employee_id :: string
  clock_in :: int
  clock_out :: "int option"
  entry_notes :: string

subsection \<open>The kiosk: \<open>useEmployees\<close>, \<open>useTimeEntries\<close> and component \<open>TimeClock\<close>\<close>

datatype Screen = ScreenInput | ScreenConfirm | ScreenAction

datatype MessageType = Success | Error

text \<open>
  The state of the kiosk: table \<open>tc_time_entries\<close> of the database, the two lists the
  hooks hold, and the state variables of the component. Of the message banner the kind is
  kept, not the text.
\<close>

record Kiosk =
  tc_time_entries :: "TCTimeEntry list"
  employees :: "TCEmployee list"
  entries :: "TCTimeEntry list"
  screen :: Screen
  employeeNumber :: string
  matchedEmployee :: "TCEmployee option"
  openEntry :: "TCTimeEntry option"
  message :: "MessageType option"

definition findByNumber :: "Kiosk \<Rightarrow> string \<Rightarrow> TCEmployee option" where
  "findByNumber k num = find (\<lambda>e. employee_number e = num \<and> is_active e) (employees k)"

definition getOpenEntry :: "Kiosk \<Rightarrow> string \<Rightarrow> TCTimeEntry option" where
  "getOpenEntry k employeeId =
     find (\<lambda>e. employee_id e = employeeId \<and> clock_out e = None) (entries k)"

text \<open>\<open>clockIn\<close>: the insert returns the created row, whose id the database generates.\<close>

definition clockIn :: "string \<Rightarrow> int \<Rightarrow> Kiosk \<Rightarrow> string \<Rightarrow> Kiosk" where
  "clockIn newId now k employeeId =
     (let created = \<lparr>entry_id = newId, employee_id = employeeId, clock_in = now,
                     clock_out = None, entry_notes = []\<rparr>
      in k\<lparr>tc_time_entries := tc_time_entries k @ [created],
           entries := created # entries k\<rparr>)"

definition clockOut :: "int \<Rightarrow> Kiosk \<Rightarrow> string \<Rightarrow> Kiosk" where
  "clockOut now k entryId =
     k\<lparr>tc_time_entries :=
          map (\<lambda>e. if entry_id e = entryId then e\<lparr>clock_out := Some now\<rparr> else e)
            (tc_time_entries k),
       entries :=
          map (\<lambda>e. if entry_id e = entryId then e\<lparr>clock_out := Some now\<rparr> else e) (entries k)\<rparr>"

text \<open>
  What a user or a timer can do. \<open>Reset\<close> is the callback of the timers that return to
  the input screen (30 s of inactivity, 4 s after a success message), \<open>ClearMessage\<close> the
  one that removes the "Employee not found" banner after 3 s.
\<close>

datatype KioskEvent =
    KeyPress string
  | SubmitNumber
  | ConfirmYes
  | ConfirmNo
  | ClockIn string int
  | ClockOut int
  | Reset
  | ClearMessage

definition handleKeyPress :: "Kiosk \<Rightarrow> string \<Rightarrow> Kiosk" where
  "handleKeyPress k digit =
     (if digit = ''clear'' then k\<lparr>employeeNumber := []\<rparr>
      else if digit = ''back'' then k\<lparr>employeeNumber := butlast (employeeNumber k)\<rparr>
      else if length (employeeNumber k) < 4 then k\<lparr>employeeNumber := employeeNumber k @ digit\<rparr>
      else k)"

definition handleSubmitNumber :: "Kiosk \<Rightarrow> Kiosk" where
  "handleSubmitNumber k =
     (case findByNumber k (employeeNumber k) of
        None \<Rightarrow> k\<lparr>message := Some Error\<rparr>
      | Some emp \<Rightarrow> k\<lparr>matchedEmployee := Some emp, screen := ScreenConfirm\<rparr>)"

definition handleConfirmYes :: "Kiosk \<Rightarrow> Kiosk" where
  "handleConfirmYes k =
     (case matchedEmployee k of
        None \<Rightarrow> k
      | Some emp \<Rightarrow> k\<lparr>openEntry := getOpenEntry k (emp_id emp), screen := ScreenAction\<rparr>)"

definition handleConfirmNo :: "Kiosk \<Rightarrow> Kiosk" where
  "handleConfirmNo k = k\<lparr>screen := ScreenInput, employeeNumber := [], matchedEmployee := None\<rparr>"

definition handleClockIn :: "string \<Rightarrow> int \<Rightarrow> Kiosk \<Rightarrow> Kiosk" where
  "handleClockIn newId now k =
     (case matchedEmployee k of
        None \<Rightarrow> k
      | Some emp \<Rightarrow>
          (clockIn newId now k (emp_id emp))\<lparr>message := Some Success\<rparr>)"

definition handleClockOut :: "int \<Rightarrow> Kiosk \<Rightarrow> Kiosk" where
  "handleClockOut now k =
     (case openEntry k of
        None \<Rightarrow> k
      | Some entry \<Rightarrow>
          (clockOut now k (entry_id entry))\<lparr>message := Some Success\<rparr>)"

definition resetKiosk :: "Kiosk \<Rightarrow> Kiosk" where
  "resetKiosk k = k\<lparr>screen := ScreenInput, employeeNumber := [], matchedEmployee := None,
                   openEntry := None, message := None\<rparr>"

text \<open>The keys of the keypad, in the order of the grid: nine digits, clear, zero, back.\<close>

definition keypad :: "string list" where
  "keypad = map (\<lambda>c. [c]) ''123456789'' @ [''clear'', ''0'', ''back'']"

text \<open>Which control the rendered screen offers (lines 221 to 381 of the component).\<close>

definition offered :: "Kiosk \<Rightarrow> KioskEvent \<Rightarrow> bool" where
  "offered k ev =
     (case ev of
        KeyPress key \<Rightarrow> screen k = ScreenInput \<and> key \<in> set keypad
      | SubmitNumber \<Rightarrow> screen k = ScreenInput \<and> \<not> length (employeeNumber k) < 4
      | ConfirmYes \<Rightarrow> screen k = ScreenConfirm \<and> matchedEmployee k \<noteq> None
      | ConfirmNo \<Rightarrow> (screen k = ScreenConfirm \<or> screen k = ScreenAction) \<and> matchedEmployee k \<noteq> None
      | ClockIn newId now \<Rightarrow> screen k = ScreenAction \<and> matchedEmployee k \<noteq> None \<and> openEntry k = None
      | ClockOut now \<Rightarrow> screen k = ScreenAction \<and> matchedEmployee k \<noteq> None \<and> openEntry k \<noteq> None
      | Reset \<Rightarrow> True
      | ClearMessage \<Rightarrow> True)"

definition handle :: "Kiosk \<Rightarrow> KioskEvent \<Rightarrow> Kiosk" where
  "handle k ev =
     (case ev of
        KeyPress key \<Rightarrow> handleKeyPress k key
      | SubmitNumber \<Rightarrow> handleSubmitNumber k
      | ConfirmYes \<Rightarrow> handleConfirmYes k
      | ConfirmNo \<Rightarrow> handleConfirmNo k
      | ClockIn newId now \<Rightarrow> handleClockIn newId now k
      | ClockOut now \<Rightarrow> handleClockOut now k
      | Reset \<Rightarrow> resetKiosk k
      | ClearMessage \<Rightarrow> k\<lparr>message := None\<rparr>)"

text \<open>An event that the screen does not offer cannot happen and leaves the kiosk as it is.\<close>

definition kiosk_step :: "Kiosk \<Rightarrow> KioskEvent \<Rightarrow> Kiosk" where
  "kiosk_step k ev = (if offered k ev then handle k ev else k)"

definition kiosk_run :: "Kiosk \<Rightarrow> KioskEvent list \<Rightarrow> Kiosk" where
  "kiosk_run k evs = foldl kiosk_step k evs"

text \<open>The open entries of an employee in the table, and the convention on them.\<close>

definition open_entries :: "TCTimeEntry list \<Rightarrow> string \<Rightarrow> TCTimeEntry list" where
  "open_entries tbl employeeId =
     filter (\<lambda>e. employee_id e = employeeId \<and> clock_out e = None) tbl"

definition at_most_one_open :: "TCTimeEntry list \<Rightarrow> bool" where
  "at_most_one_open tbl = (\<forall>employeeId. length (open_entries tbl employeeId) \<le> 1)"

definition sample_employee :: TCEmployee where
  "sample_employee = \<lparr>emp_id = ''e-1'', employee_number = ''1001'', first_name = ''Ada'',
                       last_name = ''Lee'', is_active = True\<rparr>"

definition sample_kiosk :: Kiosk where
  "sample_kiosk = \<lparr>tc_time_entries = [], employees = [sample_employee], entries = [],
                    screen = ScreenInput, employeeNumber = [], matchedEmployee = None,
                    openEntry = None, message = None\<rparr>"

section \<open>Signed to Sealed: hooks, \<open>SigningView\<close> and \<open>EnvelopeDetail\<close>\<close>

subsection \<open>Types of \<open>src/types/signedtosealed.ts\<close> and the tables of the schema\<close>

datatype EnvelopeStatus = Draft | Sent | InProgress | Completed | Voided

datatype RecipientRole = Signer | Cc | InPerson

datatype RecipientStatus = Pending | Viewed | Signed | Declined

record STSEnvelope =
  env_id :: string
  env_title :: string
  env_status :: EnvelopeStatus
  env_created_by :: string
  env_sent_at :: "string option"
  env_completed_at :: "string option"
  env_voided_at :: "string option"
  env_void_reason :: "string option"
  env_updated_at :: string

record STSDocument =
  doc_id :: string
  doc_envelope_id :: string
  doc_file_name :: string
  doc_sort_order :: int

record STSRecipient =
  rcp_id :: string
  rcp_envelope_id :: string
  rcp_name :: string
  rcp_email :: string
  rcp_role :: RecipientRole
  rcp_signing_order :: int
  rcp_status :: RecipientStatus
  rcp_access_token :: string
  rcp_viewed_at :: "string option"
  rcp_signed_at :: "string option"

record STSField =
  fld_id :: string
  fld_envelope_id :: string
  fld_document_id :: string
  fld_recipient_id :: string
  fld_is_required :: bool
  fld_field_value :: "string option"

record STSAuditEntry =
  aud_envelope_id :: string
  aud_event_type :: string
  aud_actor_name :: string
  aud_recipient_id :: "string option"

record STSEnvelopeDetail =
  det_envelope :: STSEnvelope
  det_documents :: "STSDocument list"
  det_recipients :: "STSRecipient list"
  det_fields :: "STSField list"

record Database =
  sts_envelopes :: "STSEnvelope list"
  sts_documents :: "STSDocument list"
  sts_recipients :: "STSRecipient list"
  sts_fields :: "STSField list"
  sts_audit_log :: "STSAuditEntry list"

subsection \<open>Queries\<close>

text \<open>\<open>.single()\<close>: the one row of the result, an error for no row or several.\<close>

definition single :: "'a list \<Rightarrow> string + 'a" where
  "single rows =
     (case rows of
        [] \<Rightarrow> Inl ''JSON object requested, multiple (or no) rows returned''
      | [r] \<Rightarrow> Inr r
      | _ # _ # _ \<Rightarrow> Inl ''JSON object requested, multiple (or no) rows returned'')"

definition logEvent :: "STSAuditEntry \<Rightarrow> Database \<Rightarrow> Database" where
  "logEvent ins db = db\<lparr>sts_audit_log := sts_audit_log db @ [ins]\<rparr>"

text \<open>\<open>updateEnvelope(id, updates)\<close> of \<open>useEnvelopes\<close>, the updates given as a function on the row.\<close>

definition updateEnvelope ::
  "string \<Rightarrow> string \<Rightarrow> (STSEnvelope \<Rightarrow> STSEnvelope) \<Rightarrow> Database \<Rightarrow> Database" where
  "updateEnvelope now eid updates db =
     db\<lparr>sts_envelopes :=
          map (\<lambda>e. if env_id e = eid then (updates e)\<lparr>env_updated_at := now\<rparr> else e)
            (sts_envelopes db)\<rparr>"

definition sendEnvelope :: "string \<Rightarrow> string \<Rightarrow> Database \<Rightarrow> Database" where
  "sendEnvelope now eid db =
     updateEnvelope now eid (\<lambda>e. e\<lparr>env_status := Sent, env_sent_at := Some now\<rparr>) db"

definition voidEnvelope :: "string \<Rightarrow> string \<Rightarrow> string \<Rightarrow> Database \<Rightarrow> Database" where
  "voidEnvelope now eid reason db =
     updateEnvelope now eid
       (\<lambda>e. e\<lparr>env_status := Voided, env_voided_at := Some now, env_void_reason := Some reason\<rparr>) db"

text \<open>The four parallel queries of \<open>useEnvelopeDetail\<close> and of \<open>useSigningByToken\<close>.\<close>

definition loadDetail :: "Database \<Rightarrow> string \<Rightarrow> string + STSEnvelopeDetail" where
  "loadDetail db eid =
     (case single (filter (\<lambda>e. env_id e = eid) (sts_envelopes db)) of
        Inl err \<Rightarrow> Inl err
      | Inr env \<Rightarrow>
          Inr \<lparr>det_envelope = env,
               det_documents = sort_key doc_sort_order
                             (filter (\<lambda>d. doc_envelope_id d = eid) (sts_documents db)),
               det_recipients = sort_key rcp_signing_order
                              (filter (\<lambda>r. rcp_envelope_id r = eid) (sts_recipients db)),
               det_fields = filter (\<lambda>f. fld_envelope_id f = eid) (sts_fields db)\<rparr>)"

subsection \<open>\<open>useSigningByToken\<close>\<close>

text \<open>The state of the hook once \<open>fetchByToken\<close> has run: what the sign page renders from.\<close>

record SigningSession =
  ss_recipient :: "STSRecipient option"
  ss_envelope :: "STSEnvelopeDetail option"
  ss_error :: "string option"

definition no_session :: SigningSession where
  "no_session = \<lparr>ss_recipient = None, ss_envelope = None, ss_error = None\<rparr>"

definition fetchByToken ::
  "bool \<Rightarrow> string \<Rightarrow> string option \<Rightarrow> Database \<Rightarrow> SigningSession \<times> Database" where
  "fetchByToken configured now token db =
     (if \<not> configured \<or> \<not> truthy token then (no_session, db)
      else
        case single (filter (\<lambda>r. rcp_access_token r = the token) (sts_recipients db)) of
          Inl err \<Rightarrow> (no_session\<lparr>ss_error := Some ''Invalid or expired signing link''\<rparr>, db)
        | Inr rec \<Rightarrow>
           (case loadDetail db (rcp_envelope_id rec) of
              Inl err \<Rightarrow> (\<lparr>ss_recipient = Some rec, ss_envelope = None, ss_error = Some err\<rparr>, db)
            | Inr detail \<Rightarrow>
               (if env_status (det_envelope detail) = Voided
                then (\<lparr>ss_recipient = Some rec, ss_envelope = None,
                       ss_error = Some ''This envelope has been voided''\<rparr>, db)
                else if env_status (det_envelope detail) = Completed
                then (\<lparr>ss_recipient = Some rec, ss_envelope = None,
                       ss_error = Some ''This envelope has already been completed''\<rparr>, db)
                else if rcp_status rec = Signed
                then (\<lparr>ss_recipient = Some rec, ss_envelope = None,
                       ss_error = Some ''You have already signed this document''\<rparr>, db)
                else
                  (\<lparr>ss_recipient = Some rec, ss_envelope = Some detail, ss_error = None\<rparr>,
                   if rcp_status rec = Pending
                   then db\<lparr>sts_recipients :=
                             map (\<lambda>r. if rcp_id r = rcp_id rec
                                       then r\<lparr>rcp_status := Viewed, rcp_viewed_at := Some now\<rparr>
                                       else r) (sts_recipients db)\<rparr>
                   else db))))"

subsection \<open>\<open>SigningView\<close>: submitting a signature\<close>

text \<open>
  \<open>fieldValues\<close> is the \<open>Record<string, string>\<close> of the component, as its list of
  entries; \<open>confirmed\<close> is the answer to the \<open>confirm\<close> dialog.
\<close>

definition unfilled :: "STSEnvelopeDetail \<Rightarrow> STSRecipient \<Rightarrow> (string \<times> string) list \<Rightarrow> STSField list" where
  "unfilled envelope recipient fieldValues =
     (let myFields = filter (\<lambda>f. fld_recipient_id f = rcp_id recipient) (det_fields envelope);
          requiredFields = filter fld_is_required myFields
      in filter (\<lambda>f. \<not> truthy (map_of fieldValues (fld_id f))) requiredFields)"

text \<open>
  Which calls of the database fail while \<open>handleSubmit\<close> runs. The client does not throw:
  a failed call resolves to \<open>{ data: null, error }\<close> and has written nothing.
  \<open>handleSubmit\<close> reads the result of none of its updates and only \<open>data\<close> of its select;
  \<open>logEvent\<close> does throw on an error (\<open>if (error) throw toError(error)\<close>), which ends
  \<open>handleSubmit\<close> in its \<open>catch\<close>.
\<close>

record SubmitFaults =
  field_update_fails :: "string \<Rightarrow> bool"
  recipient_update_fails :: bool
  signed_log_fails :: bool
  recipients_select_fails :: bool
  envelope_update_fails :: bool
  completed_log_fails :: bool

definition no_faults :: SubmitFaults where
  "no_faults = \<lparr>field_update_fails = (\<lambda>_. False), recipient_update_fails = False,
                signed_log_fails = False, recipients_select_fails = False,
                envelope_update_fails = False, completed_log_fails = False\<rparr>"

text \<open>Lines 108 to 110: one update for each entry of \<open>fieldValues\<close>.\<close>

definition saveFieldValues ::
  "(string \<Rightarrow> bool) \<Rightarrow> (string \<times> string) list \<Rightarrow> Database \<Rightarrow> Database" where
  "saveFieldValues fails fieldValues db =
     foldl (\<lambda>d (fieldId, v).
              if fails fieldId then d
              else d\<lparr>sts_fields := map (\<lambda>f. if fld_id f = fieldId
                                              then f\<lparr>fld_field_value := Some v\<rparr> else f)
                                      (sts_fields d)\<rparr>)
       db fieldValues"

text \<open>
  Lines 135 and 136: \<open>allRecipients\<close> is \<open>data\<close> of the select of lines 129 to 132, \<open>null\<close>
  when the select failed, and \<open>(allRecipients || [])\<close> is then the empty list.
\<close>

definition allSigned :: "STSRecipient list option \<Rightarrow> STSRecipient \<Rightarrow> bool" where
  "allSigned allRecipients recipient =
     (let signers = filter (\<lambda>r. rcp_role r = Signer)
                      (case allRecipients of None \<Rightarrow> [] | Some rows \<Rightarrow> rows)
      in list_all (\<lambda>r. rcp_id r = rcp_id recipient \<or> rcp_status r = Signed) signers)"

text \<open>Lines 113 to 117: the update of the recipient's row.\<close>

definition signRecipient :: "string \<Rightarrow> string \<Rightarrow> Database \<Rightarrow> Database" where
  "signRecipient now rid db =
     db\<lparr>sts_recipients :=
          map (\<lambda>r. if rcp_id r = rid
                    then r\<lparr>rcp_status := Signed, rcp_signed_at := Some now\<rparr>
                    else r) (sts_recipients db)\<rparr>"

text \<open>Lines 138 to 142 and 153 to 157: the update of the envelope's row.\<close>

definition setEnvelopeStatus ::
  "string \<Rightarrow> (STSEnvelope \<Rightarrow> STSEnvelope) \<Rightarrow> Database \<Rightarrow> Database" where
  "setEnvelopeStatus eid updates db =
     db\<lparr>sts_envelopes := map (\<lambda>e. if env_id e = eid then updates e else e) (sts_envelopes db)\<rparr>"

definition handleSubmit ::
  "SubmitFaults \<Rightarrow> string \<Rightarrow> STSEnvelopeDetail \<Rightarrow> STSRecipient \<Rightarrow> (string \<times> string) list
     \<Rightarrow> bool \<Rightarrow> Database \<Rightarrow> Database" where
  "handleSubmit faults now envelope recipient fieldValues confirmed db =
     (if unfilled envelope recipient fieldValues \<noteq> [] then db
      else if \<not> confirmed then db
      else
        (let eid = env_id (det_envelope envelope);
             db1 = saveFieldValues (field_update_fails faults) fieldValues db;
             db2 = (if recipient_update_fails faults then db1
                    else signRecipient now (rcp_id recipient) db1)
         in if signed_log_fails faults then db2
            else
              (let db3 = logEvent \<lparr>aud_envelope_id = eid, aud_event_type = ''recipient_signed'',
                                    aud_actor_name = rcp_name recipient,
                                    aud_recipient_id = Some (rcp_id recipient)\<rparr> db2;
                   allRecipients =
                     (if recipients_select_fails faults then None
                      else Some (filter (\<lambda>r. rcp_envelope_id r = eid) (sts_recipients db3)))
               in if allSigned allRecipients recipient
                  then
                    (let db4 = (if envelope_update_fails faults then db3
                                else setEnvelopeStatus eid
                                       (\<lambda>e. e\<lparr>env_status := Completed,
                                              env_completed_at := Some now\<rparr>) db3)
                     in if completed_log_fails faults then db4
                        else logEvent \<lparr>aud_envelope_id = eid,
                                        aud_event_type = ''envelope_completed'',
                                        aud_actor_name = ''System'', aud_recipient_id = None\<rparr> db4)
                  else if envelope_update_fails faults then db3
                  else setEnvelopeStatus eid (\<lambda>e. e\<lparr>env_status := InProgress\<rparr>) db3)))"

subsection \<open>\<open>EnvelopeDetail\<close>: the buttons of the administrator\<close>

text \<open>\<open>!voidReason.trim()\<close>: the reason is empty or white space only.\<close>

definition blank :: "string \<Rightarrow> bool" where
  "blank s = list_all (\<lambda>c. (of_char c :: nat) \<in> {9, 10, 11, 12, 13, 32}) s"

definition handleSend :: "string \<Rightarrow> STSEnvelopeDetail \<Rightarrow> bool \<Rightarrow> Database \<Rightarrow> Database" where
  "handleSend now detail confirmed db =
     (if det_recipients detail = [] then db
      else if \<not> confirmed then db
      else logEvent \<lparr>aud_envelope_id = env_id (det_envelope detail),
                      aud_event_type = ''envelope_sent'',
                      aud_actor_name = (if env_created_by (det_envelope detail) \<noteq> []
                                        then env_created_by (det_envelope detail) else ''Admin''),
                      aud_recipient_id = None\<rparr>
             (sendEnvelope now (env_id (det_envelope detail)) db))"

definition handleVoid :: "string \<Rightarrow> STSEnvelopeDetail \<Rightarrow> string \<Rightarrow> Database \<Rightarrow> Database" where
  "handleVoid now detail voidReason db =
     (if blank voidReason then db
      else logEvent \<lparr>aud_envelope_id = env_id (det_envelope detail),
                      aud_event_type = ''envelope_voided'',
                      aud_actor_name = (if env_created_by (det_envelope detail) \<noteq> []
                                        then env_created_by (det_envelope detail) else ''Admin''),
                      aud_recipient_id = None\<rparr>
             (voidEnvelope now (env_id (det_envelope detail)) voidReason db))"

definition handleMarkComplete :: "string \<Rightarrow> STSEnvelopeDetail \<Rightarrow> Database \<Rightarrow> Database" where
  "handleMarkComplete now detail db =
     logEvent \<lparr>aud_envelope_id = env_id (det_envelope detail),
                aud_event_type = ''envelope_completed'',
                aud_actor_name = ''System'', aud_recipient_id = None\<rparr>
       (updateEnvelope now (env_id (det_envelope detail))
          (\<lambda>e. e\<lparr>env_status := Completed, env_completed_at := Some now\<rparr>) db)"

text \<open>Lines 209, 210, 257, 276 and 286: when each button is rendered.\<close>

definition send_offered :: "STSEnvelopeDetail \<Rightarrow> bool" where
  "send_offered detail = (env_status (det_envelope detail) = Draft)"

definition canComplete :: "STSEnvelopeDetail \<Rightarrow> bool" where
  "canComplete detail =
     (let allSigned = list_all (\<lambda>r. rcp_status r = Signed)
                        (filter (\<lambda>r. rcp_role r = Signer) (det_recipients detail))
      in (env_status (det_envelope detail) = Sent \<or> env_status (det_envelope detail) = InProgress)
         \<and> allSigned)"

definition void_offered :: "STSEnvelopeDetail \<Rightarrow> bool" where
  "void_offered detail =
     (env_status (det_envelope detail) = Sent \<or> env_status (det_envelope detail) = InProgress)"

text \<open>The administrator opens the detail view of an envelope and presses a button it shows.\<close>

datatype AdminAction = PressSend bool | PressMarkComplete | PressVoid string

definition admin_press :: "string \<Rightarrow> string \<Rightarrow> AdminAction \<Rightarrow> Database \<Rightarrow> Database" where
  "admin_press now eid act db =
     (case loadDetail db eid of
        Inl err \<Rightarrow> db
      | Inr detail \<Rightarrow>
         (case act of
            PressSend confirmed \<Rightarrow>
              (if send_offered detail then handleSend now detail confirmed db else db)
          | PressMarkComplete \<Rightarrow>
              (if canComplete detail then handleMarkComplete now detail db else db)
          | PressVoid reason \<Rightarrow>
              (if void_offered detail then handleVoid now detail reason db else db)))"

text \<open>The status the table holds for an envelope, and the signers that have not signed.\<close>

definition status_of :: "Database \<Rightarrow> string \<Rightarrow> EnvelopeStatus list" where
  "status_of db eid = map env_status (filter (\<lambda>e. env_id e = eid) (sts_envelopes db))"

definition unsigned_signers :: "Database \<Rightarrow> string \<Rightarrow> STSRecipient list" where
  "unsigned_signers db eid =
     filter (\<lambda>r. rcp_envelope_id r = eid \<and> rcp_role r = Signer \<and> rcp_status r \<noteq> Signed)
       (sts_recipients db)"

subsection \<open>A concrete database for evaluation\<close>

definition sample_recipient :: "string \<Rightarrow> string \<Rightarrow> RecipientRole \<Rightarrow> RecipientStatus \<Rightarrow> STSRecipient" where
  "sample_recipient rid tok role st =
     \<lparr>rcp_id = rid, rcp_envelope_id = ''E1'', rcp_name = rid, rcp_email = rid @ ''@example.org'',
      rcp_role = role, rcp_signing_order = 1, rcp_status = st, rcp_access_token = tok,
      rcp_viewed_at = None, rcp_signed_at = None\<rparr>"

definition sample_envelope :: "EnvelopeStatus \<Rightarrow> STSEnvelope" where
  "sample_envelope st =
     \<lparr>env_id = ''E1'', env_title = ''Lease'', env_status = st, env_created_by = ''Admin'',
      env_sent_at = None, env_completed_at = None, env_voided_at = None,
      env_void_reason = None, env_updated_at = ''2026-03-01T09:00:00.000Z''\<rparr>"

definition sample_db :: "EnvelopeStatus \<Rightarrow> RecipientStatus \<Rightarrow> Database" where
  "sample_db st other =
     \<lparr>sts_envelopes = [sample_envelope st],
      sts_documents = [\<lparr>doc_id = ''D1'', doc_envelope_id = ''E1'', doc_file_name = ''lease.pdf'',
                         doc_sort_order = 0\<rparr>],
      sts_recipients = [sample_recipient ''R1'' ''T1'' Signer Pending,
                        sample_recipient ''R2'' ''T2'' Signer other],
      sts_fields = [\<lparr>fld_id = ''F1'', fld_envelope_id = ''E1'', fld_document_id = ''D1'',
                      fld_recipient_id = ''R1'', fld_is_required = True, fld_field_value = None\<rparr>],
      sts_audit_log = []\<rparr>"

section \<open>The commission calculation\<close>

text \<open>
  Modelled from the spec: the commission rate. File \<open>@/lib/commissionCalculator\<close>, which
  the handler imports \<open>calculateCommissions\<close> from, is not among the sources; the spec
  gives "commission = price \<times> 0.20".
\<close>

definition COMMISSION_RATE :: rat where
  "COMMISSION_RATE = 20 / 100"

text \<open>
  Modelled from the spec: whether the first-ever visit of a client falls in the requested
  range ("a client with no first-visit date [...] is simply excluded"). Dates are compared
  as the handler compares them, as strings.
\<close>

definition firstVisitInRange :: "PhorestClient list \<Rightarrow> string \<Rightarrow> string \<Rightarrow> string \<Rightarrow> bool" where
  "firstVisitInRange clients s e clientId =
     (case find (\<lambda>c. c_clientId c = clientId) clients of
        None \<Rightarrow> False
      | Some c \<Rightarrow>
         (case c_firstVisit c of
            None \<Rightarrow> False
          | Some d \<Rightarrow> js_str_le s d \<and> js_str_le d e))"

text \<open>
  Modelled from the spec: which appointments earn a commission ("only for appointments whose
  client's first-visit date falls in the query range, excluding canceled/deleted appointments
  and zero/null-priced ones").
\<close>

definition commissionEligible ::
  "PhorestClient list \<Rightarrow> string \<Rightarrow> string \<Rightarrow> PhorestAppointment \<Rightarrow> bool" where
  "commissionEligible clients s e a =
     (a_activationState a \<noteq> CANCELED \<and> \<not> a_deleted a \<and>
      (case a_price a of None \<Rightarrow> False | Some p \<Rightarrow> p \<noteq> 0) \<and>
      firstVisitInRange clients s e (a_clientId a))"

text \<open>Modelled from the spec: the row of one service, "commission = price \<times> 0.20".\<close>

definition serviceCommission :: "PhorestAppointment \<Rightarrow> ServiceCommission" where
  "serviceCommission a =
     \<lparr>sc_appointmentId = a_appointmentId a,
      sc_serviceName = (case a_serviceName a of None \<Rightarrow> [] | Some n \<Rightarrow> n),
      sc_appointmentDate = a_appointmentDate a,
      sc_price = (case a_price a of None \<Rightarrow> 0 | Some p \<Rightarrow> p),
      sc_commission = (case a_price a of None \<Rightarrow> 0 | Some p \<Rightarrow> p) * COMMISSION_RATE\<rparr>"

text \<open>
  Modelled from the spec: the roll-up "Branch\<rightarrow>Stylist\<rightarrow>Client\<rightarrow>Service totals". The
  spec fixes neither the order of the groups nor the names shown.
\<close>

definition clientCommission ::
  "PhorestClient list \<Rightarrow> PhorestAppointment list \<Rightarrow> string \<Rightarrow> ClientCommission" where
  "clientCommission clients appts clientId =
     (let services = map serviceCommission (filter (\<lambda>a. a_clientId a = clientId) appts);
          client = find (\<lambda>c. c_clientId c = clientId) clients
      in \<lparr>cc_clientId = clientId,
          cc_clientName = (case client of None \<Rightarrow> []
                           | Some c \<Rightarrow> c_firstName c @ '' '' @ c_lastName c),
          cc_firstVisitDate = (case client of None \<Rightarrow> []
                               | Some c \<Rightarrow> (case c_firstVisit c of None \<Rightarrow> [] | Some d \<Rightarrow> d)),
          cc_services = services,
          cc_clientTotal = sum_list (map sc_commission services)\<rparr>)"

text \<open>Modelled from the spec: the roll-up of one stylist.\<close>

definition stylistCommission ::
  "PhorestStaff list \<Rightarrow> PhorestClient list \<Rightarrow> PhorestAppointment list \<Rightarrow> string
     \<Rightarrow> StylistCommission" where
  "stylistCommission staff clients appts staffId =
     (let mine = filter (\<lambda>a. a_staffId a = staffId) appts;
          cs = map (clientCommission clients mine) (remdups (map a_clientId mine))
      in \<lparr>st_staffId = staffId,
          st_staffName = (case find (\<lambda>s. s_staffId s = staffId) staff of None \<Rightarrow> []
                          | Some s \<Rightarrow> s_firstName s @ '' '' @ s_lastName s),
          st_clients = cs,
          st_stylistTotal = sum_list (map cc_clientTotal cs)\<rparr>)"

text \<open>Modelled from the spec: the roll-up of one branch.\<close>

definition branchCommission ::
  "PhorestClient list \<Rightarrow> string \<Rightarrow> string \<Rightarrow> BranchData \<Rightarrow> BranchCommission" where
  "branchCommission clients s e bd =
     (let eligible = filter (commissionEligible clients s e) (bd_appointments bd);
          ss = map (stylistCommission (bd_staff bd) clients eligible)
                 (remdups (map a_staffId eligible))
      in \<lparr>bc_branchId = b_branchId (bd_branch bd),
          bc_branchName = b_name (bd_branch bd),
          bc_stylists = ss,
          bc_branchTotal = sum_list (map st_stylistTotal ss)\<rparr>)"

text \<open>
  Modelled from the spec: \<open>calculateCommissions(branchDataList, clients, startDate, endDate)\<close>;
  \<open>now\<close> is the time the function reads for \<open>fetchedAt\<close>.
\<close>

definition calculateCommissions ::
  "string \<Rightarrow> BranchData list \<Rightarrow> PhorestClient list \<Rightarrow> string \<Rightarrow> string \<Rightarrow> CommissionResult" where
  "calculateCommissions now branchDataList clients s e =
     (let bs = map (branchCommission clients s e) branchDataList
      in \<lparr>branches = bs,
          totalCommission = sum_list (map bc_branchTotal bs),
          totalNewClients =
            length (remdups (map a_clientId
              (filter (commissionEligible clients s e)
                 (concat (map bd_appointments branchDataList))))),
          fetchedAt = now\<rparr>)"

text \<open>Every service row of a result.\<close>

definition serviceRows :: "CommissionResult \<Rightarrow> ServiceCommission list" where
  "serviceRows res =
     concat (map cc_services (concat (map st_clients (concat (map bc_stylists (branches res))))))"

definition sample_appointment ::
  "string \<Rightarrow> string \<Rightarrow> rat option \<Rightarrow> ActivationState \<Rightarrow> bool \<Rightarrow> PhorestAppointment" where
  "sample_appointment aid cid price act del =
     \<lparr>a_appointmentId = aid, a_branchId = ''B1'', a_clientId = cid, a_staffId = ''S1'',
      a_serviceId = ''cut'', a_serviceName = Some ''Cut'', a_appointmentDate = ''2026-01-10'',
      a_price = price, a_activationState = act, a_deleted = del\<rparr>"

definition sample_clients :: "PhorestClient list" where
  "sample_clients =
     [\<lparr>c_clientId = ''C1'', c_firstName = ''Ann'', c_lastName = ''Ray'',
       c_firstVisit = Some ''2026-01-10''\<rparr>,
      \<lparr>c_clientId = ''C2'', c_firstName = ''Bo'', c_lastName = ''Fox'',
       c_firstVisit = Some ''2025-06-02''\<rparr>,
      \<lparr>c_clientId = ''C3'', c_firstName = ''Cy'', c_lastName = ''Orr'', c_firstVisit = None\<rparr>]"

definition sample_branchData :: "BranchData list" where
  "sample_branchData =
     [\<lparr>bd_branch = \<lparr>b_branchId = ''B1'', b_name = ''Main''\<rparr>,
       bd_staff = [\<lparr>s_staffId = ''S1'', s_branchId = ''B1'', s_firstName = ''Di'',
                    s_lastName = ''Kim'', s_archived = False\<rparr>],
       bd_appointments =
         [sample_appointment ''A1'' ''C1'' (Some 100) ACTIVE False,
          sample_appointment ''A2'' ''C1'' (Some 50) CANCELED False,
          sample_appointment ''A3'' ''C1'' (Some 30) ACTIVE True,
          sample_appointment ''A4'' ''C1'' None ACTIVE False,
          sample_appointment ''A5'' ''C1'' (Some 0) ACTIVE False,
          sample_appointment ''A6'' ''C2'' (Some 80) ACTIVE False,
          sample_appointment ''A7'' ''C3'' (Some 60) ACTIVE False,
          sample_appointment ''A8'' ''C1'' (Some 45) RESERVED False]\<rparr>]"

text \<open>What one appointment adds to the totals: the commission of its service row.\<close>

definition commissionOf :: "PhorestAppointment \<Rightarrow> rat" where
  "commissionOf a = sc_commission (serviceCommission a)"

text \<open>The kiosk events of an employee who enters a number, confirms and taps Clock In twice.\<close>

definition double_tap :: "KioskEvent list" where
  "double_tap = [KeyPress ''1'', KeyPress ''0'', KeyPress ''0'', KeyPress ''1'', SubmitNumber,
                 ConfirmYes, ClockIn ''t-1'' 1000, ClockIn ''t-2'' 1400]"

text \<open>
  A signer opens the signing link, the administrator voids the envelope, and the signer,
  whose page is still open, finishes signing.
\<close>

definition opened_session :: "SigningSession \<times> Database" where
  "opened_session = fetchByToken True ''2026-03-02T10:00:00.000Z'' (Some ''T1'') (sample_db Sent Pending)"

definition after_void :: Database where
  "after_void = admin_press ''2026-03-02T10:05:00.000Z'' ''E1'' (PressVoid ''sent by mistake'')
                  (snd opened_session)"

definition after_late_submit :: Database where
  "after_late_submit =
     handleSubmit no_faults ''2026-03-02T10:06:00.000Z'' (the (ss_envelope (fst opened_session)))
       (the (ss_recipient (fst opened_session))) [(''F1'', ''data:image/png;base64,AAAA'')] True
       after_void"

text \<open>The detail of the sample envelope as the signing page holds it.\<close>

definition sample_detail :: "EnvelopeStatus \<Rightarrow> RecipientStatus \<Rightarrow> STSEnvelopeDetail" where
  "sample_detail st other =
     \<lparr>det_envelope = sample_envelope st,
      det_documents = sts_documents (sample_db st other),
      det_recipients = sts_recipients (sample_db st other),
      det_fields = sts_fields (sample_db st other)\<rparr>"

text \<open>
  The first of two signers submits while the second has not signed, and the select that
  re-reads the recipients fails.
\<close>

definition failed_reread :: SubmitFaults where
  "failed_reread = no_faults\<lparr>recipients_select_fails := True\<rparr>"

definition after_failed_reread :: Database where
  "after_failed_reread =
     handleSubmit failed_reread ''2026-03-02T11:00:00.000Z'' (sample_detail Sent Pending)
       (sample_recipient ''R1'' ''T1'' Signer Pending) [(''F1'', ''data:image/png;base64,AAAA'')]
       True (sample_db Sent Pending)"

text \<open>The same submission with every call succeeding.\<close>

definition after_first_signature :: Database where
  "after_first_signature =
     handleSubmit no_faults ''2026-03-02T11:00:00.000Z'' (sample_detail Sent Pending)
       (sample_recipient ''R1'' ''T1'' Signer Pending) [(''F1'', ''data:image/png;base64,AAAA'')]
       True (sample_db Sent Pending)"

section \<open>Verified properties\<close>

subsection \<open>Commission endpoint: the values that pass validation\<close>

text \<open>The number of hyphens of a string: two in a date, at most one in a positive number.\<close>

lemma is_digit_digit_char: "d < 10 \<Longrightarrow> is_digit (digit_char d)"
  by (simp add: is_digit_def digit_char_def)

lemma decimal_digits: "list_all is_digit (decimal n)"
  by (induction n rule: decimal.induct) (subst decimal.simps, simp add: is_digit_digit_char)

lemma digit_not_hyphen: "is_digit c \<Longrightarrow> c \<noteq> CHR ''-''"
  by (auto simp: is_digit_def)

lemma hyphens_Nil [simp]: "hyphens [] = 0"
  by (simp add: hyphens_def)

lemma hyphens_Cons [simp]:
  "hyphens (c # s) = (if c = CHR ''-'' then Suc (hyphens s) else hyphens s)"
  by (simp add: hyphens_def)

lemma hyphens_append [simp]: "hyphens (a @ b) = hyphens a + hyphens b"
  by (simp add: hyphens_def)

lemma hyphens_digits: "list_all is_digit s \<Longrightarrow> hyphens s = 0"
  by (induction s) (auto simp: digit_not_hyphen)

lemma hyphens_decimal [simp]: "hyphens (decimal n) = 0"
  by (simp add: hyphens_digits decimal_digits)

lemma hyphens_replicate [simp]: "hyphens (replicate n CHR ''0'') = 0"
  by (simp add: hyphens_def)

lemma hyphens_take_drop:
  "hyphens s = 0 \<Longrightarrow> hyphens (take n s) = 0 \<and> hyphens (drop n s) = 0"
  by (metis add_is_0 append_take_drop_id hyphens_append)

lemma date_shape:
  assumes "dateRegex_test s"
  shows "hyphens s = 2 \<and> s \<noteq> [] \<and> is_digit (hd s)"
proof -
  from assms have "length s = 10"
    by (simp add: dateRegex_test_def)
  then obtain a b c d e f g h i j where s: "s = [a, b, c, d, e, f, g, h, i, j]"
    by (auto simp: numeral_eq_Suc length_Suc_conv)
  with assms show ?thesis
    by (auto simp: dateRegex_test_def digit_not_hyphen)
qed

lemma hyphens_magnitude: "hyphens (magnitude_to_string m) \<le> 1"
proof (cases m)
  case (MagFinite s n)
  have z: "hyphens (decimal s) = 0" by simp
  note td = hyphens_take_drop [OF z]
  show ?thesis
    unfolding MagFinite magnitude_to_string_def
    using td by (simp add: Let_def)
qed (simp_all add: magnitude_to_string_def)

lemma number_never_a_date: "\<not> dateRegex_test (number_to_string negative m)"
proof
  assume d: "dateRegex_test (number_to_string negative m)"
  note sh = date_shape [OF d]
  show False
  proof (cases "is_zero m")
    case True
    with sh show False by (simp add: number_to_string_def)
  next
    case False
    show False
    proof (cases negative)
      case True
      with False sh show False
        by (simp add: number_to_string_def is_digit_def)
    next
      case n: False
      with False sh hyphens_magnitude [of m] show False
        by (simp add: number_to_string_def)
    qed
  qed
qed

text \<open>
  Only a string or an array converts to a string of the form of a date, so the two values
  that line 34 compares are compared as strings; and such a value is truthy.
\<close>

lemma matching_value_is_string_or_array:
  assumes "dateRegex_test (js_to_string v)"
  shows "(\<exists>s. v = JStr s) \<or> (\<exists>xs. v = JArr xs)"
proof (cases v)
  case (JNum negative m)
  with assms number_never_a_date show ?thesis by simp
qed (use assms in \<open>auto simp: dateRegex_test_def split: if_splits\<close>)

lemma matching_value_truthy:
  "dateRegex_test (js_to_string v) \<Longrightarrow> js_truthy (Some v)"
  using matching_value_is_string_or_array [of v]
  by (auto simp: js_truthy_def dateRegex_test_def)

lemma js_truthy_None [simp]: "\<not> js_truthy None"
  by (simp add: js_truthy_def)

lemma matches_format_truthy: "matches_format v \<Longrightarrow> js_truthy v"
  by (cases v) (simp_all add: matches_format_def matching_value_truthy)

subsection \<open>Commission endpoint: validation\<close>

lemma js_str_lt_lexord:
  "js_str_lt a b \<longleftrightarrow> (a, b) \<in> lexord {(x, y). (of_char x :: nat) < of_char y}"
  by (induction a b rule: js_str_lt.induct) auto

lemma js_str_lt_irrefl: "\<not> js_str_lt a a"
  by (induction a) auto

lemma compute_and_cache_not_400: "fst (compute_and_cache env t st s e) \<noteq> Json400 m"
  by (auto simp: compute_and_cache_def Let_def split: sum.splits prod.splits)

lemma cached_or_computed_not_400: "fst (cached_or_computed env t st s e f) \<noteq> Json400 m"
  by (auto simp: cached_or_computed_def Let_def compute_and_cache_not_400 split: option.splits)

lemma POST_valid:
  assumes "matches_format (Some s)" "matches_format (Some e)"
    and "\<not> js_str_gt (js_to_string s) (js_to_string e)"
  shows "POST env t st (BodyObject \<lparr>startDate = Some s, endDate = Some e, forceRefresh = force\<rparr>)
           = cached_or_computed env t st s e (js_truthy force)"
  using assms matches_format_truthy [of "Some s"] matches_format_truthy [of "Some e"]
  by (simp add: POST_def Let_def matches_format_def)


lemma read_body_throws:
  "read_body raw = BodyThrows msg \<longleftrightarrow>
     raw = NotJson msg \<or> (raw = ParsedJson JNull \<and> msg = null_body_message)"
  by (auto simp: read_body_def split: RawBody.splits json.splits)

lemma sample_dates_match:
  "matches_format (Some (JStr ''2026-01-01''))" "matches_format (Some (JStr ''2026-01-31''))"
  "dateRegex_test ''2026-01-15''" "\<not> js_str_gt ''2026-01-01'' ''2026-01-31''"
  "matches_format (Some (JArr [JStr ''2026-01-01'']))"
  by (simp_all add: matches_format_def dateRegex_test_def is_digit_def js_str_gt_def)

text \<open>
  C9: the response 400 "startDate must be before endDate" is returned exactly when both
  dates are well formed and \<open>startDate\<close> is lexicographically strictly greater than
  \<open>endDate\<close>; a request whose two dates are the same well-formed value passes validation
  and goes on to the cache check and the computation.
\<close>

theorem C9_equal_dates_pass_validation:
  "(fst (POST env t st (BodyObject req)) = Json400 ''startDate must be before endDate''
      \<longleftrightarrow> matches_format (startDate req) \<and> matches_format (endDate req) \<and>
          (js_to_string (the (endDate req)), js_to_string (the (startDate req)))
             \<in> lexord {(x, y). (of_char x :: nat) < of_char y})
   \<and> (dateRegex_test (js_to_string d) \<longrightarrow>
        POST env t st (BodyObject \<lparr>startDate = Some d, endDate = Some d, forceRefresh = f\<rparr>)
          = cached_or_computed env t st d d (js_truthy f))"
proof (intro conjI impI)
  show "fst (POST env t st (BodyObject req)) = Json400 ''startDate must be before endDate''
     \<longleftrightarrow> matches_format (startDate req) \<and> matches_format (endDate req) \<and>
         (js_to_string (the (endDate req)), js_to_string (the (startDate req)))
            \<in> lexord {(x, y). (of_char x :: nat) < of_char y}"
    using matches_format_truthy [of "startDate req"] matches_format_truthy [of "endDate req"]
    by (cases "startDate req"; cases "endDate req")
       (auto simp: POST_def Let_def matches_format_def js_str_gt_def
          js_str_lt_lexord cached_or_computed_not_400)
next
  assume "dateRegex_test (js_to_string d)"
  then show "POST env t st (BodyObject \<lparr>startDate = Some d, endDate = Some d, forceRefresh = f\<rparr>)
          = cached_or_computed env t st d d (js_truthy f)"
    by (simp add: POST_valid matches_format_def js_str_gt_def js_str_lt_irrefl)
qed

theorem C9_equal_dates_pass_validation_witness:
  "dateRegex_test (js_to_string (JStr ''2026-01-15'')) \<and>
   POST (sample_env True) (sample_times 1000) empty_state
      (BodyObject \<lparr>startDate = Some (JStr ''2026-01-15''), endDate = Some (JStr ''2026-01-15''),
                   forceRefresh = None\<rparr>)
     = cached_or_computed (sample_env True) (sample_times 1000) empty_state
         (JStr ''2026-01-15'') (JStr ''2026-01-15'') (js_truthy None)"
proof -
  have h: "dateRegex_test (js_to_string (JStr ''2026-01-15''))"
    by (simp add: sample_dates_match)
  from C9_equal_dates_pass_validation
         [of "sample_env True" "sample_times 1000" empty_state _ "JStr ''2026-01-15''" None,
          THEN conjunct2, THEN mp, OF h]
  show ?thesis using h by (rule conjI [rotated])
qed




subsection \<open>Commission endpoint: the cache\<close>

lemma cache_log_effect [simp]: "cache (log_effect x st) = cache st"
  by (simp add: log_effect_def)















subsection \<open>The commission calculation\<close>

lemma sum_list_delta_absent:
  "k0 \<notin> set ks \<Longrightarrow> sum_list (map (\<lambda>k. if k0 = k then (c::rat) else 0) ks) = 0"
  by (induction ks) auto

lemma sum_list_delta:
  "distinct ks \<Longrightarrow> k0 \<in> set ks \<Longrightarrow> sum_list (map (\<lambda>k. if k0 = k then (c::rat) else 0) ks) = c"
  by (induction ks) (auto simp: sum_list_delta_absent)

text \<open>Summing group by group is summing the whole list, whatever the key.\<close>

lemma sum_list_groups_gen:
  fixes f :: "'a \<Rightarrow> rat"
  assumes "distinct ks" "key ` set xs \<subseteq> set ks"
  shows "sum_list (map (\<lambda>k. sum_list (map f (filter (\<lambda>x. key x = k) xs))) ks) = sum_list (map f xs)"
  using assms
proof (induction xs)
  case Nil
  then show ?case by simp
next
  case (Cons x xs)
  have "sum_list (map (\<lambda>k. sum_list (map f (filter (\<lambda>x. key x = k) (x # xs)))) ks)
      = sum_list (map (\<lambda>k. (if key x = k then f x else 0)
                              + sum_list (map f (filter (\<lambda>x. key x = k) xs))) ks)"
    by (rule arg_cong [where f = sum_list], rule map_cong) auto
  also have "\<dots> = sum_list (map (\<lambda>k. if key x = k then f x else 0) ks)
                 + sum_list (map (\<lambda>k. sum_list (map f (filter (\<lambda>x. key x = k) xs))) ks)"
    by (simp add: sum_list_addf)
  also have "\<dots> = f x + sum_list (map f xs)"
    using Cons by (simp add: sum_list_delta)
  finally show ?case by simp
qed

lemma sum_list_groups:
  fixes f :: "'a \<Rightarrow> rat"
  shows "sum_list (map (\<lambda>k. sum_list (map f (filter (\<lambda>x. key x = k) xs))) (remdups (map key xs)))
           = sum_list (map f xs)"
  by (rule sum_list_groups_gen) auto

lemma clientTotal_eq:
  "cc_clientTotal (clientCommission clients appts cid)
     = sum_list (map commissionOf (filter (\<lambda>a. a_clientId a = cid) appts))"
  by (simp add: clientCommission_def Let_def commissionOf_def [abs_def] comp_def)

lemma stylistTotal_eq:
  "st_stylistTotal (stylistCommission staff clients appts sid)
     = sum_list (map commissionOf (filter (\<lambda>a. a_staffId a = sid) appts))"
  by (simp add: stylistCommission_def Let_def comp_def clientTotal_eq sum_list_groups)

lemma branchTotal_eq:
  "bc_branchTotal (branchCommission clients s e bd)
     = sum_list (map commissionOf (filter (commissionEligible clients s e) (bd_appointments bd)))"
  by (simp add: branchCommission_def Let_def comp_def stylistTotal_eq sum_list_groups)

lemma totalCommission_eq:
  "totalCommission (calculateCommissions now bdl clients s e)
     = sum_list (map commissionOf
         (filter (commissionEligible clients s e) (concat (map bd_appointments bdl))))"
  by (induction bdl) (simp_all add: calculateCommissions_def Let_def branchTotal_eq)

lemma commissionOf_eligible:
  "commissionEligible clients s e a \<Longrightarrow> commissionOf a = the (a_price a) * (20 / 100)"
  by (auto simp: commissionEligible_def commissionOf_def serviceCommission_def COMMISSION_RATE_def
           split: option.splits)

lemma serviceRows_from_eligible:
  "set (serviceRows (calculateCommissions now bdl clients s e))
     = serviceCommission ` {a \<in> set (concat (map bd_appointments bdl)).
                              commissionEligible clients s e a}"
  by (auto simp: serviceRows_def calculateCommissions_def branchCommission_def
        stylistCommission_def clientCommission_def Let_def)

text \<open>
  C1: in the result of the calculation every service row carries a commission of its price
  times 0.20 and stems from an appointment that is neither canceled nor deleted, has a price
  other than null and zero, and whose client has a first-visit date within
  \<open>[startDate, endDate]\<close>; the branch totals and the grand total are the sums of price times
  0.20 over exactly these appointments, so an appointment that is canceled or deleted, has a
  zero or null price, or whose client has no first-visit date or one outside the range,
  adds nothing to any total.
\<close>

theorem C1_commission_is_fifth_of_price_for_first_visits:
  "(\<forall>row \<in> set (serviceRows (calculateCommissions now bdl clients s e)).
       sc_commission row = sc_price row * (20 / 100) \<and>
       (\<exists>a \<in> set (concat (map bd_appointments bdl)).
           sc_appointmentId row = a_appointmentId a \<and>
           a_price a = Some (sc_price row) \<and> sc_price row \<noteq> 0 \<and>
           a_activationState a \<noteq> CANCELED \<and> \<not> a_deleted a \<and>
           firstVisitInRange clients s e (a_clientId a)))
   \<and> (\<forall>b \<in> set bdl.
         bc_branchTotal (branchCommission clients s e b)
           = sum_list (map (\<lambda>a. the (a_price a) * (20 / 100))
               (filter (commissionEligible clients s e) (bd_appointments b))))
   \<and> totalCommission (calculateCommissions now bdl clients s e)
       = sum_list (map (\<lambda>a. the (a_price a) * (20 / 100))
           (filter (commissionEligible clients s e) (concat (map bd_appointments bdl))))
   \<and> (\<forall>a. a_activationState a = CANCELED \<or> a_deleted a \<or> a_price a = None \<or>
            a_price a = Some 0 \<or> \<not> firstVisitInRange clients s e (a_clientId a)
          \<longrightarrow> \<not> commissionEligible clients s e a)
   \<and> (\<forall>c \<in> set clients. \<forall>cid.
         find (\<lambda>c. c_clientId c = cid) clients = Some c \<and> c_firstVisit c = None
           \<longrightarrow> \<not> firstVisitInRange clients s e cid)"
proof (intro conjI ballI allI impI)
  fix row
  assume "row \<in> set (serviceRows (calculateCommissions now bdl clients s e))"
  then obtain a where a: "a \<in> set (concat (map bd_appointments bdl))"
      "commissionEligible clients s e a" "row = serviceCommission a"
    unfolding serviceRows_from_eligible by blast
  from a(2) obtain p where p: "a_price a = Some p" "p \<noteq> 0"
    by (auto simp: commissionEligible_def split: option.splits)
  show "sc_commission row = sc_price row * (20 / 100)"
    using a(3) by (simp add: serviceCommission_def COMMISSION_RATE_def)
  show "\<exists>a \<in> set (concat (map bd_appointments bdl)).
           sc_appointmentId row = a_appointmentId a \<and>
           a_price a = Some (sc_price row) \<and> sc_price row \<noteq> 0 \<and>
           a_activationState a \<noteq> CANCELED \<and> \<not> a_deleted a \<and>
           firstVisitInRange clients s e (a_clientId a)"
    using a p by (intro bexI [of _ a]) (simp_all add: serviceCommission_def commissionEligible_def)
next
  fix b
  show "bc_branchTotal (branchCommission clients s e b)
           = sum_list (map (\<lambda>a. the (a_price a) * (20 / 100))
               (filter (commissionEligible clients s e) (bd_appointments b)))"
    unfolding branchTotal_eq
    by (rule arg_cong [where f = sum_list], rule map_cong) (auto dest: commissionOf_eligible)
next
  show "totalCommission (calculateCommissions now bdl clients s e)
       = sum_list (map (\<lambda>a. the (a_price a) * (20 / 100))
           (filter (commissionEligible clients s e) (concat (map bd_appointments bdl))))"
    unfolding totalCommission_eq
    by (rule arg_cong [where f = sum_list], rule map_cong) (auto dest: commissionOf_eligible)
next
  fix a :: PhorestAppointment
  assume "a_activationState a = CANCELED \<or> a_deleted a \<or> a_price a = None \<or>
            a_price a = Some 0 \<or> \<not> firstVisitInRange clients s e (a_clientId a)"
  then show "\<not> commissionEligible clients s e a"
    by (auto simp: commissionEligible_def)
next
  fix c cid
  assume "find (\<lambda>c. c_clientId c = cid) clients = Some c \<and> c_firstVisit c = None"
  then show "\<not> firstVisitInRange clients s e cid"
    by (simp add: firstVisitInRange_def)
qed

theorem C1_commission_is_fifth_of_price_for_first_visits_witness:
  "\<lparr>sc_appointmentId = ''A1'', sc_serviceName = ''Cut'', sc_appointmentDate = ''2026-01-10'',
     sc_price = 100, sc_commission = 20\<rparr>
     \<in> set (serviceRows (calculateCommissions ''2026-02-01T10:00:00.000Z'' sample_branchData
                sample_clients ''2026-01-01'' ''2026-01-31''))
   \<and> sc_commission \<lparr>sc_appointmentId = ''A1'', sc_serviceName = ''Cut'',
         sc_appointmentDate = ''2026-01-10'', sc_price = 100, sc_commission = 20\<rparr>
       = sc_price \<lparr>sc_appointmentId = ''A1'', sc_serviceName = ''Cut'',
           sc_appointmentDate = ''2026-01-10'', sc_price = 100, sc_commission = 20\<rparr> * (20 / 100)
   \<and> a_deleted (sample_appointment ''A3'' ''C1'' (Some 30) ACTIVE True)
   \<and> \<not> commissionEligible sample_clients ''2026-01-01'' ''2026-01-31''
          (sample_appointment ''A3'' ''C1'' (Some 30) ACTIVE True)"
proof -
  let ?row = "\<lparr>sc_appointmentId = ''A1'', sc_serviceName = ''Cut'',
     sc_appointmentDate = ''2026-01-10'', sc_price = 100, sc_commission = 20\<rparr>"
  let ?a = "sample_appointment ''A3'' ''C1'' (Some 30) ACTIVE True"
  note c1 = C1_commission_is_fifth_of_price_for_first_visits
              [of "''2026-02-01T10:00:00.000Z''" sample_branchData sample_clients
                  "''2026-01-01''" "''2026-01-31''"]
  have mem: "?row \<in> set (serviceRows (calculateCommissions ''2026-02-01T10:00:00.000Z''
                sample_branchData sample_clients ''2026-01-01'' ''2026-01-31''))"
    by code_simp
  have del: "a_deleted ?a"
    by (simp add: sample_appointment_def)
  from c1 [THEN conjunct1, rule_format, OF mem]
  have rate: "sc_commission ?row = sc_price ?row * (20 / 100)"
    by (rule conjunct1)
  from c1 [THEN conjunct2, THEN conjunct2, THEN conjunct2, THEN conjunct1, rule_format,
           of ?a] del
  have "\<not> commissionEligible sample_clients ''2026-01-01'' ''2026-01-31'' ?a"
    by blast
  with mem rate del show ?thesis by blast
qed

subsection \<open>Time clock: the kiosk\<close>

lemma length_filter_map_le:
  assumes "\<And>x. P (f x) \<Longrightarrow> P x"
  shows "length (filter P (map f xs)) \<le> length (filter P xs)"
  using assms by (induction xs) auto

text \<open>
  The action screen is in step with the table when the list of the hook holds the rows of
  the table and \<open>openEntry\<close> is what \<open>getOpenEntry\<close> finds for the matched employee now.
\<close>

lemma kiosk_step_keeps_convention_when_fresh:
  assumes inv: "at_most_one_open (tc_time_entries k)"
    and rows: "set (entries k) = set (tc_time_entries k)"
    and fresh: "\<And>emp. screen k = ScreenAction \<Longrightarrow> matchedEmployee k = Some emp
                  \<Longrightarrow> openEntry k = getOpenEntry k (emp_id emp)"
  shows "at_most_one_open (tc_time_entries (kiosk_step k ev))"
proof (cases "offered k ev")
  case False
  with inv show ?thesis by (simp add: kiosk_step_def)
next
  case True
  show ?thesis
  proof (cases ev)
    case (ClockIn newId now)
    with True obtain emp where emp: "matchedEmployee k = Some emp" "screen k = ScreenAction"
        "openEntry k = None"
      by (auto simp: offered_def)
    with fresh have "getOpenEntry k (emp_id emp) = None" by simp
    then have "open_entries (tc_time_entries k) (emp_id emp) = []"
      using rows by (auto simp: getOpenEntry_def open_entries_def find_None_iff filter_empty_conv)
    then have "length (open_entries (tc_time_entries k @
                 [\<lparr>entry_id = newId, employee_id = emp_id emp, clock_in = now,
                   clock_out = None, entry_notes = []\<rparr>]) e) \<le> 1" for e
      using inv by (auto simp: open_entries_def at_most_one_open_def)
    then show ?thesis
      using True ClockIn emp
      by (simp add: kiosk_step_def handle_def handleClockIn_def clockIn_def Let_def
            at_most_one_open_def)
  next
    case (ClockOut now)
    have "length (open_entries
            (map (\<lambda>e. if entry_id e = i then e\<lparr>clock_out := Some now\<rparr> else e)
               (tc_time_entries k)) e) \<le> length (open_entries (tc_time_entries k) e)" for i e
      unfolding open_entries_def by (rule length_filter_map_le) (auto split: if_splits)
    then have "length (open_entries
            (map (\<lambda>e. if entry_id e = i then e\<lparr>clock_out := Some now\<rparr> else e)
               (tc_time_entries k)) e) \<le> 1" for i e
      using inv unfolding at_most_one_open_def by (meson order_trans)
    then show ?thesis
      using True ClockOut inv
      by (auto simp: kiosk_step_def handle_def handleClockOut_def clockOut_def
            at_most_one_open_def split: option.splits)
  qed (use inv True in \<open>auto simp: kiosk_step_def handle_def handleKeyPress_def
         handleSubmitNumber_def handleConfirmYes_def handleConfirmNo_def resetKiosk_def
         split: option.splits\<close>)
qed

text \<open>
  C7 (the code does not keep the convention): an employee enters number 1001, confirms and
  taps Clock In; for four seconds the action screen stays as it was, \<open>openEntry\<close> is still
  unset, and Clock In is offered again. A second tap inserts a second open entry. Every
  event of the run is one the rendered screen offers; the table starts with no open entry
  and ends with two for the same employee.
\<close>

theorem C7_double_clock_in_opens_two_entries:
  "at_most_one_open (tc_time_entries sample_kiosk)
   \<and> list_all (\<lambda>n. offered (kiosk_run sample_kiosk (take n double_tap)) (double_tap ! n))
        [0, 1, 2, 3, 4, 5, 6, 7]
   \<and> length double_tap = 8
   \<and> open_entries (tc_time_entries (kiosk_run sample_kiosk double_tap)) ''e-1''
       = [\<lparr>entry_id = ''t-1'', employee_id = ''e-1'', clock_in = 1000, clock_out = None,
           entry_notes = []\<rparr>,
          \<lparr>entry_id = ''t-2'', employee_id = ''e-1'', clock_in = 1400, clock_out = None,
           entry_notes = []\<rparr>]
   \<and> \<not> at_most_one_open (tc_time_entries (kiosk_run sample_kiosk double_tap))"
proof -
  have start: "at_most_one_open (tc_time_entries sample_kiosk)"
    by (simp add: at_most_one_open_def open_entries_def sample_kiosk_def)
  have offered_all:
    "list_all (\<lambda>n. offered (kiosk_run sample_kiosk (take n double_tap)) (double_tap ! n))
        [0, 1, 2, 3, 4, 5, 6, 7]"
    by code_simp
  have len: "length double_tap = 8"
    by (simp add: double_tap_def)
  have two: "open_entries (tc_time_entries (kiosk_run sample_kiosk double_tap)) ''e-1''
       = [\<lparr>entry_id = ''t-1'', employee_id = ''e-1'', clock_in = 1000, clock_out = None,
           entry_notes = []\<rparr>,
          \<lparr>entry_id = ''t-2'', employee_id = ''e-1'', clock_in = 1400, clock_out = None,
           entry_notes = []\<rparr>]"
    by code_simp
  have "\<not> length (open_entries (tc_time_entries (kiosk_run sample_kiosk double_tap)) ''e-1'') \<le> 1"
    unfolding two by simp
  then have "\<not> at_most_one_open (tc_time_entries (kiosk_run sample_kiosk double_tap))"
    unfolding at_most_one_open_def by blast
  with start offered_all len two show ?thesis by blast
qed

subsection \<open>Signed to Sealed: the signing session of a token\<close>

lemma single_Inr: "single rows = Inr r \<longleftrightarrow> rows = [r]"
  by (cases rows rule: list.exhaust; simp add: single_def split: list.splits)


lemma loadDetail_Inr:
  assumes "loadDetail db eid = Inr detail"
  shows "filter (\<lambda>e. env_id e = eid) (sts_envelopes db) = [det_envelope detail]"
    and "env_id (det_envelope detail) = eid"
    and "set (det_documents detail) = {d \<in> set (sts_documents db). doc_envelope_id d = eid}"
    and "set (det_recipients detail) = {r \<in> set (sts_recipients db). rcp_envelope_id r = eid}"
    and "set (det_fields detail) = {f \<in> set (sts_fields db). fld_envelope_id f = eid}"
proof -
  from assms obtain env where
    env: "single (filter (\<lambda>e. env_id e = eid) (sts_envelopes db)) = Inr env"
    and d: "detail = \<lparr>det_envelope = env,
               det_documents = sort_key doc_sort_order
                             (filter (\<lambda>d. doc_envelope_id d = eid) (sts_documents db)),
               det_recipients = sort_key rcp_signing_order
                              (filter (\<lambda>r. rcp_envelope_id r = eid) (sts_recipients db)),
               det_fields = filter (\<lambda>f. fld_envelope_id f = eid) (sts_fields db)\<rparr>"
    by (auto simp: loadDetail_def split: sum.splits)
  from env have one: "filter (\<lambda>e. env_id e = eid) (sts_envelopes db) = [env]"
    by (simp add: single_Inr)
  then show "filter (\<lambda>e. env_id e = eid) (sts_envelopes db) = [det_envelope detail]"
    by (simp add: d)
  from one have "env \<in> set (filter (\<lambda>e. env_id e = eid) (sts_envelopes db))"
    by simp
  then show "env_id (det_envelope detail) = eid"
    by (simp add: d)
  show "set (det_documents detail) = {d \<in> set (sts_documents db). doc_envelope_id d = eid}"
    by (simp add: d)
  show "set (det_recipients detail) = {r \<in> set (sts_recipients db). rcp_envelope_id r = eid}"
    by (simp add: d)
  show "set (det_fields detail) = {f \<in> set (sts_fields db). fld_envelope_id f = eid}"
    by (simp add: d)
qed





subsection \<open>Signed to Sealed: completing an envelope\<close>

lemma saveFieldValues_other_tables:
  "sts_recipients (saveFieldValues fails fv db) = sts_recipients db"
  "sts_envelopes (saveFieldValues fails fv db) = sts_envelopes db"
  by (induction fv arbitrary: db; simp add: saveFieldValues_def split_beta; fail)+

lemma allSigned_after_signing:
  "allSigned (Some (filter (\<lambda>r. rcp_envelope_id r = eid)
                (sts_recipients (signRecipient now (rcp_id recipient) db)))) recipient
     \<longleftrightarrow> unsigned_signers (signRecipient now (rcp_id recipient) db) eid = []"
  by (auto simp: allSigned_def unsigned_signers_def signRecipient_def Let_def list_all_iff
        filter_empty_conv)

text \<open>
  What a submission writes when it goes through and the update of the recipient, the first
  audit entry, the select and the update of the envelope all succeed: the two tables it
  changes.
\<close>

lemma handleSubmit_tables:
  assumes "unfilled envelope recipient fv = []"
    and "\<not> recipient_update_fails faults" "\<not> signed_log_fails faults"
    and "\<not> recipients_select_fails faults" "\<not> envelope_update_fails faults"
  shows "sts_recipients (handleSubmit faults now envelope recipient fv True db)
           = sts_recipients (signRecipient now (rcp_id recipient) db)"
    and "sts_envelopes (handleSubmit faults now envelope recipient fv True db)
           = map (\<lambda>e. if env_id e = env_id (det_envelope envelope)
                       then (if unsigned_signers (signRecipient now (rcp_id recipient) db)
                                   (env_id (det_envelope envelope)) = []
                             then e\<lparr>env_status := Completed, env_completed_at := Some now\<rparr>
                             else e\<lparr>env_status := InProgress\<rparr>)
                       else e) (sts_envelopes db)"
proof -
  let ?eid = "env_id (det_envelope envelope)"
  let ?db1 = "saveFieldValues (field_update_fails faults) fv db"
  let ?db2 = "signRecipient now (rcp_id recipient) ?db1"
  let ?db3 = "logEvent \<lparr>aud_envelope_id = ?eid, aud_event_type = ''recipient_signed'',
                          aud_actor_name = rcp_name recipient,
                          aud_recipient_id = Some (rcp_id recipient)\<rparr> ?db2"
  let ?done = "\<lambda>e. e\<lparr>env_status := Completed, env_completed_at := Some now\<rparr>"
  let ?db4 = "setEnvelopeStatus ?eid ?done ?db3"
  have r3: "sts_recipients ?db3 = sts_recipients (signRecipient now (rcp_id recipient) db)"
    and e3: "sts_envelopes ?db3 = sts_envelopes db"
    by (simp_all add: logEvent_def signRecipient_def saveFieldValues_other_tables)
  have dec: "allSigned (Some (filter (\<lambda>r. rcp_envelope_id r = ?eid) (sts_recipients ?db3)))
               recipient
               \<longleftrightarrow> unsigned_signers (signRecipient now (rcp_id recipient) db) ?eid = []"
    unfolding r3 by (rule allSigned_after_signing)
  have h: "handleSubmit faults now envelope recipient fv True db
             = (if unsigned_signers (signRecipient now (rcp_id recipient) db) ?eid = []
                then (if completed_log_fails faults then ?db4
                      else logEvent \<lparr>aud_envelope_id = ?eid,
                                      aud_event_type = ''envelope_completed'',
                                      aud_actor_name = ''System'', aud_recipient_id = None\<rparr> ?db4)
                else setEnvelopeStatus ?eid (\<lambda>e. e\<lparr>env_status := InProgress\<rparr>) ?db3)"
    using assms dec unfolding handleSubmit_def Let_def by simp
  show "sts_recipients (handleSubmit faults now envelope recipient fv True db)
           = sts_recipients (signRecipient now (rcp_id recipient) db)"
    unfolding h using r3 by (simp add: logEvent_def setEnvelopeStatus_def)
  show "sts_envelopes (handleSubmit faults now envelope recipient fv True db)
           = map (\<lambda>e. if env_id e = ?eid
                       then (if unsigned_signers (signRecipient now (rcp_id recipient) db) ?eid = []
                             then e\<lparr>env_status := Completed, env_completed_at := Some now\<rparr>
                             else e\<lparr>env_status := InProgress\<rparr>)
                       else e) (sts_envelopes db)"
    unfolding h using e3 by (simp add: logEvent_def setEnvelopeStatus_def)
qed

lemma unsigned_signers_cong:
  "sts_recipients db1 = sts_recipients db2 \<Longrightarrow> unsigned_signers db1 eid = unsigned_signers db2 eid"
  by (simp add: unsigned_signers_def)

lemma canComplete_iff:
  "canComplete detail \<longleftrightarrow>
     (env_status (det_envelope detail) = Sent \<or> env_status (det_envelope detail) = InProgress) \<and>
     (\<forall>r \<in> set (det_recipients detail). rcp_role r = Signer \<longrightarrow> rcp_status r = Signed)"
  by (auto simp: canComplete_def Let_def list_all_iff)

lemma admin_mark_complete:
  assumes "admin_press now eid PressMarkComplete db \<noteq> db"
  shows "(status_of db eid = [Sent] \<or> status_of db eid = [InProgress]) \<and>
         unsigned_signers db eid = [] \<and>
         status_of (admin_press now eid PressMarkComplete db) eid = [Completed] \<and>
         unsigned_signers (admin_press now eid PressMarkComplete db) eid = []"
proof -
  from assms obtain detail where
    d: "loadDetail db eid = Inr detail" and c: "canComplete detail"
    and p: "admin_press now eid PressMarkComplete db = handleMarkComplete now detail db"
    by (auto simp: admin_press_def split: sum.splits if_splits)
  note ld = loadDetail_Inr [OF d]
  from c have st: "env_status (det_envelope detail) = Sent \<or>
                   env_status (det_envelope detail) = InProgress"
    and sg: "\<forall>r \<in> set (det_recipients detail). rcp_role r = Signer \<longrightarrow> rcp_status r = Signed"
    by (simp_all add: canComplete_iff)
  have before: "status_of db eid = [env_status (det_envelope detail)]"
    by (simp add: status_of_def ld(1))
  have none: "unsigned_signers db eid = []"
    using sg unfolding ld(4) by (auto simp: unsigned_signers_def filter_empty_conv)
  have rcps: "sts_recipients (handleMarkComplete now detail db) = sts_recipients db"
    by (simp add: handleMarkComplete_def logEvent_def updateEnvelope_def)
  have "filter (\<lambda>e. env_id e = eid)
          (map (\<lambda>e. if env_id e = eid
                    then e\<lparr>env_status := Completed, env_completed_at := Some now,
                           env_updated_at := now\<rparr> else e) (sts_envelopes db))
        = map (\<lambda>e. e\<lparr>env_status := Completed, env_completed_at := Some now,
                     env_updated_at := now\<rparr>) (filter (\<lambda>e. env_id e = eid) (sts_envelopes db))"
    by (induction "sts_envelopes db") (auto simp: filter_map comp_def intro: filter_cong map_cong)
  then have after: "status_of (handleMarkComplete now detail db) eid = [Completed]"
    by (simp add: status_of_def handleMarkComplete_def logEvent_def updateEnvelope_def ld(1,2))
  show ?thesis
    unfolding p using before st none after unsigned_signers_cong [OF rcps, of eid] by auto
qed

text \<open>
  While every call of the database succeeds the code keeps what C2 says: a submission that
  goes through leaves the envelope completed exactly when no signer of the envelope is left
  with a status other than signed (the submitting recipient has just been set to signed),
  and in progress otherwise; a submission with a required field unfilled or not confirmed
  changes nothing.
\<close>

lemma handleSubmit_completes_when_all_signed:
  assumes "unfilled envelope recipient fv = []"
    and "\<not> recipient_update_fails faults" "\<not> signed_log_fails faults"
    and "\<not> recipients_select_fails faults" "\<not> envelope_update_fails faults"
    and "e \<in> set (sts_envelopes (handleSubmit faults now envelope recipient fv True db))"
    and "env_id e = env_id (det_envelope envelope)"
  shows "env_status e = Completed \<longleftrightarrow>
           unsigned_signers (handleSubmit faults now envelope recipient fv True db)
             (env_id (det_envelope envelope)) = []"
    and "env_status e = InProgress \<longleftrightarrow>
           unsigned_signers (handleSubmit faults now envelope recipient fv True db)
             (env_id (det_envelope envelope)) \<noteq> []"
proof -
  let ?db' = "handleSubmit faults now envelope recipient fv True db"
  let ?eid = "env_id (det_envelope envelope)"
  note t = handleSubmit_tables [OF assms(1-5), of now db]
  have un: "unsigned_signers ?db' ?eid
              = unsigned_signers (signRecipient now (rcp_id recipient) db) ?eid"
    by (rule unsigned_signers_cong) (rule t(1))
  from assms(6,7) obtain e0 where
    "e = (if unsigned_signers (signRecipient now (rcp_id recipient) db) ?eid = []
          then e0\<lparr>env_status := Completed, env_completed_at := Some now\<rparr>
          else e0\<lparr>env_status := InProgress\<rparr>)"
    unfolding t(2) by (auto split: if_splits)
  then show "env_status e = Completed \<longleftrightarrow> unsigned_signers ?db' ?eid = []"
    and "env_status e = InProgress \<longleftrightarrow> unsigned_signers ?db' ?eid \<noteq> []"
    unfolding un by (simp_all split: if_splits)
qed

lemma handleSubmit_refused:
  "unfilled envelope recipient fv \<noteq> [] \<or> \<not> confirmed
     \<Longrightarrow> handleSubmit faults now envelope recipient fv confirmed db = db"
  by (auto simp: handleSubmit_def)

text \<open>
  C2 (the code completes an envelope with a signer pending): R1, the first of the two
  signers of a sent envelope, submits while R2 is still pending, and the select that
  re-reads the recipients fails. \<open>allRecipients\<close> is then \<open>null\<close>, the list of signers is
  empty, \<open>every\<close> holds of it, and the envelope is written completed with R2 pending. The
  same submission with the select succeeding leaves the envelope in progress.
\<close>

theorem C2_failed_reread_completes_with_signer_pending:
  "status_of (sample_db Sent Pending) ''E1'' = [Sent]
   \<and> status_of after_failed_reread ''E1'' = [Completed]
   \<and> map (\<lambda>r. (rcp_id r, rcp_role r, rcp_status r)) (unsigned_signers after_failed_reread ''E1'')
       = [(''R2'', Signer, Pending)]
   \<and> status_of after_first_signature ''E1'' = [InProgress]"
  by code_simp

lemma status_of_updateEnvelope:
  assumes "filter (\<lambda>e. env_id e = eid) (sts_envelopes db) = [env]"
    and "\<And>e. env_id (upd e) = env_id e"
  shows "status_of (updateEnvelope now eid upd db) eid = [env_status (upd env)]"
proof -
  have "filter (\<lambda>e. env_id e = eid)
          (map (\<lambda>e. if env_id e = eid then (upd e)\<lparr>env_updated_at := now\<rparr> else e) es)
        = map (\<lambda>e. (upd e)\<lparr>env_updated_at := now\<rparr>) (filter (\<lambda>e. env_id e = eid) es)" for es
    by (induction es) (auto simp: assms(2))
  then show ?thesis
    by (simp add: status_of_def updateEnvelope_def assms(1))
qed

lemma status_of_logEvent: "status_of (logEvent a db) eid = status_of db eid"
  by (simp add: status_of_def logEvent_def)

text \<open>
  The three buttons of the administrator do follow the path: pressed on a freshly loaded
  detail, each leaves the status as it is or moves it along draft \<rightarrow> sent,
  sent or in progress \<rightarrow> completed, sent or in progress \<rightarrow> voided.
\<close>

lemma admin_press_follows_path:
  "status_of (admin_press now eid act db) eid = status_of db eid
   \<or> (status_of db eid = [Draft] \<and> status_of (admin_press now eid act db) eid = [Sent])
   \<or> ((status_of db eid = [Sent] \<or> status_of db eid = [InProgress]) \<and>
       (status_of (admin_press now eid act db) eid = [Completed] \<or>
        status_of (admin_press now eid act db) eid = [Voided]))"
proof (cases "loadDetail db eid")
  case (Inl err)
  then show ?thesis by (simp add: admin_press_def)
next
  case (Inr detail)
  note ld = loadDetail_Inr [OF Inr]
  have before: "status_of db eid = [env_status (det_envelope detail)]"
    by (simp add: status_of_def ld(1))
  show ?thesis
  proof (cases act)
    case (PressSend confirmed)
    have "status_of (handleSend now detail confirmed db) eid = status_of db eid
          \<or> status_of (handleSend now detail confirmed db) eid = [Sent]"
      by (simp add: handleSend_def sendEnvelope_def status_of_logEvent ld(2)
            status_of_updateEnvelope [OF ld(1)])
    then show ?thesis
      using Inr PressSend before by (auto simp: admin_press_def send_offered_def)
  next
    case PressMarkComplete
    have "status_of (handleMarkComplete now detail db) eid = [Completed]"
      by (simp add: handleMarkComplete_def status_of_logEvent ld(2)
            status_of_updateEnvelope [OF ld(1)])
    then show ?thesis
      using Inr PressMarkComplete before by (auto simp: admin_press_def canComplete_iff)
  next
    case (PressVoid reason)
    have "status_of (handleVoid now detail reason db) eid = status_of db eid
          \<or> status_of (handleVoid now detail reason db) eid = [Voided]"
      by (simp add: handleVoid_def voidEnvelope_def status_of_logEvent ld(2)
            status_of_updateEnvelope [OF ld(1)])
    then show ?thesis
      using Inr PressVoid before by (auto simp: admin_press_def void_offered_def)
  qed
qed

text \<open>
  C3 (the code leaves the path): a signer loads the signing session of a sent envelope, the
  administrator then voids the envelope with the Void button, and the signer submits from
  the page that is still open. \<open>handleSubmit\<close> writes the status without reading the
  current one, so the voided envelope becomes in progress.
\<close>

theorem C3_late_submission_moves_voided_to_in_progress:
  "ss_error (fst opened_session) = None
   \<and> status_of (snd opened_session) ''E1'' = [Sent]
   \<and> status_of after_void ''E1'' = [Voided]
   \<and> status_of after_late_submit ''E1'' = [InProgress]"
  by code_simp

end
